theory Spec2Isabelle
  imports Complex_Main "HOL-Library.AList"
begin

section \<open>Data model\<close>

text \<open>
  A dataframe is an ordered collection of named columns; a column is the list of its
  cells, one per row, in row order. Cells are exact rational numbers: the program works on
  the frame after \<open>dropna\<close>, so a cell is never missing, and the rounding of binary
  floating point is not part of the model.

  Column assignment \<open>df[c] = v\<close> replaces the column \<open>c\<close> where it stands and appends it
  when there is none, which is \<^const>\<open>AList.update\<close>; \<open>df.drop(c, axis=1)\<close> is
  \<^const>\<open>AList.delete\<close>; reading \<open>df[c]\<close> is \<^const>\<open>map_of\<close>, and raises KeyError for an
  absent column.
\<close>

type_synonym dataframe = "(string \<times> rat list) list"

datatype error =
    KeyError string
  | ValueError
  | IndexError
  | FileNotFoundError
  | SystemExit int

section \<open>Target encoder\<close>

text \<open>
  \<^verbatim>\<open>
  def process_target(df):
      df['target'] = df['num'].apply(lambda x: 1 if x > 0 else 0)
      df.drop('num', axis=1, inplace=True)
      return df
  \<close>
\<close>

definition process_target :: "dataframe \<Rightarrow> error + dataframe" where
  "process_target df =
     (case map_of df ''num'' of
        None \<Rightarrow> Inl (KeyError ''num'')
      | Some xs \<Rightarrow>
          Inr (AList.delete ''num''
                 (AList.update ''target'' (map (\<lambda>x. if x > 0 then 1 else 0) xs) df)))"

section \<open>Outlier clipper\<close>

text \<open>
  \<open>Series.quantile(q)\<close> of pandas with its default linear interpolation: on the sorted
  values, the position is \<open>h = (n - 1) * q\<close>, and the result interpolates between the values
  at \<open>floor h\<close> and at the next position. An empty column has the quantile NaN, which is
  \<open>None\<close> here.
\<close>

definition interpolate :: "rat list \<Rightarrow> rat \<Rightarrow> rat" where
  "interpolate s h =
     (let lo = nat \<lfloor>h\<rfloor>;
          hi = min (lo + 1) (length s - 1);
          g = h - of_nat lo
      in s ! lo + g * (s ! hi - s ! lo))"

definition quantile :: "rat list \<Rightarrow> rat \<Rightarrow> rat option" where
  "quantile xs q =
     (if xs = [] then None
      else Some (interpolate (sort xs) (of_nat (length xs - 1) * q)))"

text \<open>
  The body of the loop for the cells of one column. Every comparison with NaN is false, so
  with a NaN bound \<open>np.where\<close> keeps the column as it is.
  \<^verbatim>\<open>
      q1 = df[col].quantile(0.25)
      q3 = df[col].quantile(0.75)
      iqr = q3 - q1
      lower_bound = q1 - 1.5 * iqr
      upper_bound = q3 + 1.5 * iqr
      df[col] = np.where(df[col] < lower_bound, lower_bound, df[col])
      df[col] = np.where(df[col] > upper_bound, upper_bound, df[col])
  \<close>
\<close>

definition lower_bound :: "rat \<Rightarrow> rat \<Rightarrow> rat" where
  "lower_bound q1 q3 = q1 - (3 / 2) * (q3 - q1)"

definition upper_bound :: "rat \<Rightarrow> rat \<Rightarrow> rat" where
  "upper_bound q1 q3 = q3 + (3 / 2) * (q3 - q1)"

definition clip_column :: "rat list \<Rightarrow> rat list" where
  "clip_column xs =
     (case (quantile xs (1 / 4), quantile xs (3 / 4)) of
        (Some q1, Some q3) \<Rightarrow>
          (let lb = lower_bound q1 q3;
               ub = upper_bound q1 q3;
               ys = map (\<lambda>x. if x < lb then lb else x) xs
           in map (\<lambda>x. if x > ub then ub else x) ys)
      | _ \<Rightarrow> xs)"

definition bounded_columns :: "string list" where
  "bounded_columns = [''age'', ''trestbps'', ''chol'', ''thalach'', ''oldpeak'']"

text \<open>
  The loop over the column names. A missing column raises KeyError when it is read; the
  columns clipped before it stay clipped, so the loop returns the frame as it stands
  together with the exception, if any.
\<close>

fun handle_outliers_loop :: "string list \<Rightarrow> dataframe \<Rightarrow> dataframe \<times> error option" where
  "handle_outliers_loop [] df = (df, None)"
| "handle_outliers_loop (col # cols) df =
     (case map_of df col of
        None \<Rightarrow> (df, Some (KeyError col))
      | Some xs \<Rightarrow> handle_outliers_loop cols (AList.update col (clip_column xs) df))"

definition handle_outliers :: "dataframe \<Rightarrow> error + dataframe" where
  "handle_outliers df =
     (case handle_outliers_loop bounded_columns df of
        (df', None) \<Rightarrow> Inr df'
      | (df', Some e) \<Rightarrow> Inl e)"

text \<open>
  The call as the caller sees it. Python passes the dataframe object by reference, the
  assignments \<open>df[col] = ...\<close> write into that object, and \<open>return df\<close> hands the same
  reference back. The store maps references to the contents of the objects.
\<close>

type_synonym ref = nat
type_synonym store = "ref \<Rightarrow> dataframe"

definition handle_outliers_inplace :: "ref \<Rightarrow> store \<Rightarrow> (error + ref) \<times> store" where
  "handle_outliers_inplace r s =
     (case handle_outliers_loop bounded_columns (s r) of
        (df', None) \<Rightarrow> (Inr r, s(r := df'))
      | (df', Some e) \<Rightarrow> (Inl e, s(r := df')))"

text \<open>
  A column lies within its own fences when each of its cells is between the two bounds
  computed from the quartiles of that same column. An empty column has no quartiles and
  no cells.
\<close>

definition within_fences :: "rat list \<Rightarrow> bool" where
  "within_fences ys =
     (case (quantile ys (1 / 4), quantile ys (3 / 4)) of
        (Some q1, Some q3) \<Rightarrow>
          list_all (\<lambda>y. lower_bound q1 q3 \<le> y \<and> y \<le> upper_bound q1 q3) ys
      | _ \<Rightarrow> True)"

section \<open>Metrics\<close>

text \<open>
  The metric functions of scikit-learn for binary labels with the positive label 1, as
  \<open>results\<close> calls them. \<open>zero_division\<close> is the value a ratio takes when its denominator
  is zero. The functions validate their arguments first and raise ValueError for label
  vectors of different lengths, for empty ones and for labels that are not binary; the
  labels of this program are the 0 and 1 of the target encoder.
\<close>

definition valid_targets :: "rat list \<Rightarrow> rat list \<Rightarrow> bool" where
  "valid_targets y_true y_pred \<longleftrightarrow>
     length y_true = length y_pred \<and> y_true \<noteq> []
     \<and> list_all (\<lambda>v. v = 0 \<or> v = 1) y_true \<and> list_all (\<lambda>v. v = 0 \<or> v = 1) y_pred"

definition count_pairs :: "(rat \<Rightarrow> rat \<Rightarrow> bool) \<Rightarrow> rat list \<Rightarrow> rat list \<Rightarrow> nat" where
  "count_pairs P y_true y_pred = length (filter (\<lambda>(t, p). P t p) (zip y_true y_pred))"

definition precision_score :: "rat list \<Rightarrow> rat list \<Rightarrow> rat \<Rightarrow> rat" where
  "precision_score y_true y_pred zero_division =
     (let tp = count_pairs (\<lambda>t p. t = 1 \<and> p = 1) y_true y_pred;
          fp = count_pairs (\<lambda>t p. t \<noteq> 1 \<and> p = 1) y_true y_pred
      in if tp + fp = 0 then zero_division else of_nat tp / of_nat (tp + fp))"

definition recall_score :: "rat list \<Rightarrow> rat list \<Rightarrow> rat \<Rightarrow> rat" where
  "recall_score y_true y_pred zero_division =
     (let tp = count_pairs (\<lambda>t p. t = 1 \<and> p = 1) y_true y_pred;
          fn = count_pairs (\<lambda>t p. t = 1 \<and> p \<noteq> 1) y_true y_pred
      in if tp + fn = 0 then zero_division else of_nat tp / of_nat (tp + fn))"

definition accuracy_score :: "rat list \<Rightarrow> rat list \<Rightarrow> rat" where
  "accuracy_score y_true y_pred =
     of_nat (count_pairs (\<lambda>t p. t = p) y_true y_pred) / of_nat (length y_true)"

definition mean_squared_error :: "rat list \<Rightarrow> rat list \<Rightarrow> rat" where
  "mean_squared_error y_true y_pred =
     sum_list (map (\<lambda>(t, p). (t - p) * (t - p)) (zip y_true y_pred)) / of_nat (length y_true)"

text \<open>
  \<open>round(x, 3)\<close>: to the nearest multiple of \<open>1/1000\<close>, a tie to the even one.
\<close>

definition py_round :: "rat \<Rightarrow> nat \<Rightarrow> rat" where
  "py_round x ndigits =
     (let scale = 10 ^ ndigits;
          y = x * scale;
          f = \<lfloor>y\<rfloor>;
          d = y - of_int f;
          r = (if d < 1 / 2 then f else if 1 / 2 < d then f + 1 else if even f then f else f + 1)
      in of_int r / scale)"

text \<open>
  \<^verbatim>\<open>
  def print_results(precision, recall, accuracy, mse):
      table = [["Precision", round(precision, 3)], ["Recall", round(recall, 3)],
               ["Accuracy", round(accuracy, 3)], ["Mean Squared Error", round(mse, 3)]]
      print(tabulate(table, headers=["Metric", "Value"], tablefmt="grid"))
  \<close>
  The table that is printed is the value of the model.
\<close>

type_synonym metrics_table = "(string \<times> rat) list"

definition print_results :: "rat \<Rightarrow> rat \<Rightarrow> rat \<Rightarrow> rat \<Rightarrow> metrics_table" where
  "print_results precision recall accuracy mse =
     [(''Precision'', py_round precision 3),
      (''Recall'', py_round recall 3),
      (''Accuracy'', py_round accuracy 3),
      (''Mean Squared Error'', py_round mse 3)]"

text \<open>
  \<^verbatim>\<open>
  def results(y_test, y_pred):
      precision = precision_score(y_test, y_pred, zero_division=1)
      recall = recall_score(y_test, y_pred, zero_division=1)
      accuracy = accuracy_score(y_test, y_pred)
      mse = mean_squared_error(y_test, y_pred)
      print_results(precision, recall, accuracy, mse)
  \<close>
\<close>

definition results :: "rat list \<Rightarrow> rat list \<Rightarrow> error + metrics_table" where
  "results y_test y_pred =
     (if valid_targets y_test y_pred then
        (let precision = precision_score y_test y_pred 1;
             recall = recall_score y_test y_pred 1;
             accuracy = accuracy_score y_test y_pred;
             mse = mean_squared_error y_test y_pred
         in Inr (print_results precision recall accuracy mse))
      else Inl ValueError)"

section \<open>The library\<close>

text \<open>
  What the program takes from scikit-learn, xgboost and numpy and does not compute itself
  is a parameter of the model:
  \<^item> \<open>permutation g n\<close> is the random permutation of \<open>0, ..., n - 1\<close> that a generator in
    state \<open>g\<close> draws, with the state after the draw;
  \<^item> \<open>RandomState seed\<close> is the state of a fresh generator seeded with \<open>seed\<close>;
  \<^item> \<open>cross_val_score clf X y\<close> is the list of the five fold accuracies of the pipeline
    around the classifier \<open>clf\<close>, or the exception it raises;
  \<^item> \<open>fit_predict clf X_train y_train X_test\<close> is \<open>pipeline.fit(X_train, y_train)\<close> followed
    by \<open>pipeline.predict(X_test)\<close>, or the exception it raises.

  The state \<open>g\<close> is that of the global generator of numpy, which \<open>train_test_split\<close> uses
  when it gets no \<open>random_state\<close>; no other call of the program draws from it.
\<close>

datatype classifier = KNeighborsClassifier | LogisticRegression | SVC | XGBClassifier

record 'g sklearn =
  permutation :: "'g \<Rightarrow> nat \<Rightarrow> nat list \<times> 'g"
  RandomState :: "nat \<Rightarrow> 'g"
  cross_val_score :: "classifier \<Rightarrow> rat list list \<Rightarrow> rat list \<Rightarrow> error + rat list"
  fit_predict :: "classifier \<Rightarrow> rat list list \<Rightarrow> rat list \<Rightarrow> rat list list \<Rightarrow> error + rat list"

text \<open>
  \<open>train_test_split(X, y, test_size=..., random_state=...)\<close>: the test set has
  \<open>ceil(test_size * n)\<close> rows and the training set the other rows; an empty training set and
  arguments of different lengths are rejected with ValueError. The rows are the first
  \<open>n_test\<close> and the following \<open>n_train\<close> indices of a permutation, drawn from a fresh
  generator when a seed is given, else from the global one. The value is the tuple
  \<open>(X_train, X_test, y_train, y_test)\<close>. The product \<open>test_size * n\<close> is
  exact here.
\<close>

type_synonym split = "rat list list \<times> rat list list \<times> rat list \<times> rat list"

definition train_test_split ::
  "'g sklearn \<Rightarrow> rat list list \<Rightarrow> rat list \<Rightarrow> rat \<Rightarrow> nat option \<Rightarrow> 'g \<Rightarrow> (error + split) \<times> 'g" where
  "train_test_split lib X y test_size random_state g =
     (let n = length X;
          n_test = nat \<lceil>test_size * of_nat n\<rceil>;
          n_train = n - n_test
      in if length y = n \<and> 0 < n_train then
           (let (perm, g') =
                  (case random_state of
                     None \<Rightarrow> permutation lib g n
                   | Some seed \<Rightarrow> (fst (permutation lib (RandomState lib seed) n), g));
                ind_test = take n_test perm;
                ind_train = take n_train (drop n_test perm)
            in (Inr (map (\<lambda>i. X ! i) ind_train, map (\<lambda>i. X ! i) ind_test,
                     map (\<lambda>i. y ! i) ind_train, map (\<lambda>i. y ! i) ind_test),
                g'))
         else (Inl ValueError, g))"

section \<open>Model pipelines\<close>

text \<open>
  \<^verbatim>\<open>
  def evaluate_model(pipeline, X_train, X_test, y_train, y_test):
      pipeline.fit(X_train, y_train)
      y_pred = pipeline.predict(X_test)
      results(y_test, y_pred)
      return accuracy_score(y_test, y_pred)
  \<close>
  The value is the table that \<open>results\<close> prints together with the accuracy returned.
\<close>

definition evaluate_model ::
  "'g sklearn \<Rightarrow> classifier \<Rightarrow> rat list list \<Rightarrow> rat list list \<Rightarrow> rat list \<Rightarrow> rat list
     \<Rightarrow> error + metrics_table \<times> rat" where
  "evaluate_model lib clf X_train X_test y_train y_test =
     (case fit_predict lib clf X_train y_train X_test of
        Inl e \<Rightarrow> Inl e
      | Inr y_pred \<Rightarrow>
          (case results y_test y_pred of
             Inl e \<Rightarrow> Inl e
           | Inr table \<Rightarrow> Inr (table, accuracy_score y_test y_pred)))"

text \<open>
  \<open>np.mean\<close> of a list; the mean of the empty list is NaN (with a warning, no exception),
  which is \<open>None\<close>.
\<close>

definition np_mean :: "rat list \<Rightarrow> rat option" where
  "np_mean xs = (if xs = [] then None else Some (sum_list xs / of_nat (length xs)))"

text \<open>
  The four pipeline functions differ in the scaler and the classifier of the pipeline they
  build and in the title they print.
  \<^verbatim>\<open>
  def KN_pipeline(X_train, X_test, y_train, y_test):
      pipeline = Pipeline([...('clf', KNeighborsClassifier())])
      cv_scores = cross_val_score(pipeline, X_train, y_train, cv=5, scoring='accuracy')
      print('\n', 'Results for KNeighbors pipeline:')
      print("Mean CV accuracy:", round(np.mean(cv_scores), 3))
      return evaluate_model(pipeline, X_train, X_test, y_train, y_test)
  \<close>
  A report holds what one call prints: the title, the mean cross-validation accuracy and
  the metrics table.
\<close>

record report =
  title :: string
  cv_accuracy :: "rat option"
  metrics :: metrics_table

definition run_pipeline ::
  "'g sklearn \<Rightarrow> classifier \<Rightarrow> string \<Rightarrow> rat list list \<Rightarrow> rat list list \<Rightarrow> rat list \<Rightarrow> rat list
     \<Rightarrow> error + report \<times> rat" where
  "run_pipeline lib clf name X_train X_test y_train y_test =
     (case cross_val_score lib clf X_train y_train of
        Inl e \<Rightarrow> Inl e
      | Inr cv_scores \<Rightarrow>
          (case evaluate_model lib clf X_train X_test y_train y_test of
             Inl e \<Rightarrow> Inl e
           | Inr (table, acc) \<Rightarrow>
               Inr (\<lparr>title = name,
                     cv_accuracy = map_option (\<lambda>m. py_round m 3) (np_mean cv_scores),
                     metrics = table\<rparr>, acc)))"

definition XGBoost_pipeline ::
  "'g sklearn \<Rightarrow> rat list list \<Rightarrow> rat list list \<Rightarrow> rat list \<Rightarrow> rat list \<Rightarrow> error + report \<times> rat" where
  "XGBoost_pipeline lib = run_pipeline lib XGBClassifier ''Results for XGBoost pipeline:''"

definition SVM_pipeline ::
  "'g sklearn \<Rightarrow> rat list list \<Rightarrow> rat list list \<Rightarrow> rat list \<Rightarrow> rat list \<Rightarrow> error + report \<times> rat" where
  "SVM_pipeline lib = run_pipeline lib SVC ''Results for SVM pipeline:''"

definition LR_pipeline ::
  "'g sklearn \<Rightarrow> rat list list \<Rightarrow> rat list list \<Rightarrow> rat list \<Rightarrow> rat list \<Rightarrow> error + report \<times> rat" where
  "LR_pipeline lib = run_pipeline lib LogisticRegression ''Results for Logistic Regression pipeline:''"

definition KN_pipeline ::
  "'g sklearn \<Rightarrow> rat list list \<Rightarrow> rat list list \<Rightarrow> rat list \<Rightarrow> rat list \<Rightarrow> error + report \<times> rat" where
  "KN_pipeline lib = run_pipeline lib KNeighborsClassifier ''Results for KNeighbors pipeline:''"

section \<open>Reporter\<close>

text \<open>
  \<^verbatim>\<open>
  def plot_performance(accuracies, mean_accuracies):
      plt.figure(figsize=(10, 6))
      for model, acc_list in accuracies.items():
          acc_list_sorted = sorted(acc_list)
          plt.plot([acc_list_sorted[0], acc_list_sorted[-1]], [model, model], 'b-')
          plt.plot([mean_accuracies[model]], [model], 'b.')
          ...
  \<close>
  Both dictionaries are association lists in insertion order. The plot is the list of its
  rows: the model, the least accuracy, the mean and the greatest accuracy. Indexing the
  empty sorted list raises IndexError, a model without a mean KeyError.
\<close>

type_synonym plot_row = "string \<times> rat \<times> rat option \<times> rat"

fun plot_performance ::
  "(string \<times> rat list) list \<Rightarrow> (string \<times> rat option) list \<Rightarrow> error + plot_row list" where
  "plot_performance [] mean_accuracies = Inr []"
| "plot_performance ((model, acc_list) # rest) mean_accuracies =
     (let acc_list_sorted = sort acc_list
      in if acc_list_sorted = [] then Inl IndexError
         else
           (case map_of mean_accuracies model of
              None \<Rightarrow> Inl (KeyError model)
            | Some m \<Rightarrow>
                (case plot_performance rest mean_accuracies of
                   Inl e \<Rightarrow> Inl e
                 | Inr rows \<Rightarrow> Inr ((model, hd acc_list_sorted, m, last acc_list_sorted) # rows))))"

section \<open>Evaluation harness\<close>

text \<open>
  The dictionary \<open>accuracies\<close> has the four model names as its keys from the start, and the
  loop appends to the four lists; it is a record with one trace per model, and \<open>items\<close>
  lists it in the insertion order of the dictionary.
\<close>

record accuracies =
  KNeighbors :: "rat list"
  Logistic_Regression :: "rat list"
  SVM :: "rat list"
  XGBoost :: "rat list"

definition items :: "accuracies \<Rightarrow> (string \<times> rat list) list" where
  "items acc =
     [(''KNeighbors'', KNeighbors acc),
      (''Logistic Regression'', Logistic_Regression acc),
      (''SVM'', SVM acc),
      (''XGBoost'', XGBoost acc)]"

definition mean_accuracies :: "accuracies \<Rightarrow> (string \<times> rat option) list" where
  "mean_accuracies acc = map (\<lambda>(model, acc_list). (model, np_mean acc_list)) (items acc)"

text \<open>
  The loop \<open>for i in range(num)\<close> of \<open>evaluate_models_iteratively\<close>, with the iterations
  left to run, the traces so far and the state of the global generator. An exception of
  the split or of a pipeline ends the run.
\<close>

fun iterations :: "'g sklearn \<Rightarrow> rat list list \<Rightarrow> rat list \<Rightarrow> nat \<Rightarrow> accuracies \<Rightarrow> 'g
    \<Rightarrow> (error + accuracies) \<times> 'g" where
  "iterations lib X y 0 acc g = (Inr acc, g)"
| "iterations lib X y (Suc k) acc g =
     (case train_test_split lib X y (1 / 5) None g of
        (Inl e, g') \<Rightarrow> (Inl e, g')
      | (Inr (X_train, X_test, y_train, y_test), g') \<Rightarrow>
          (case KN_pipeline lib X_train X_test y_train y_test of
             Inl e \<Rightarrow> (Inl e, g')
           | Inr (r1, KN_acc) \<Rightarrow>
          (case LR_pipeline lib X_train X_test y_train y_test of
             Inl e \<Rightarrow> (Inl e, g')
           | Inr (r2, LR_acc) \<Rightarrow>
          (case SVM_pipeline lib X_train X_test y_train y_test of
             Inl e \<Rightarrow> (Inl e, g')
           | Inr (r3, SVM_acc) \<Rightarrow>
          (case XGBoost_pipeline lib X_train X_test y_train y_test of
             Inl e \<Rightarrow> (Inl e, g')
           | Inr (r4, XGB_acc) \<Rightarrow>
               iterations lib X y k
                 \<lparr>KNeighbors = KNeighbors acc @ [KN_acc],
                  Logistic_Regression = Logistic_Regression acc @ [LR_acc],
                  SVM = SVM acc @ [SVM_acc],
                  XGBoost = XGBoost acc @ [XGB_acc]\<rparr> g')))))"

definition evaluate_models_iteratively ::
  "'g sklearn \<Rightarrow> rat list list \<Rightarrow> rat list \<Rightarrow> nat \<Rightarrow> 'g \<Rightarrow> (error + plot_row list) \<times> 'g" where
  "evaluate_models_iteratively lib X y num g =
     (case iterations lib X y num
             \<lparr>KNeighbors = [], Logistic_Regression = [], SVM = [], XGBoost = []\<rparr> g of
        (Inl e, g') \<Rightarrow> (Inl e, g')
      | (Inr acc, g') \<Rightarrow> (plot_performance (items acc) (mean_accuracies acc), g'))"

text \<open>
  \<^verbatim>\<open>
  def evaluate_models_once(X, y):
      X_train, X_test, y_train, y_test = train_test_split(X, y, test_size=0.2, random_state=42)
      KN_pipeline(X_train, X_test, y_train, y_test)
      LR_pipeline(X_train, X_test, y_train, y_test)
      SVM_pipeline(X_train, X_test, y_train, y_test)
      XGBoost_pipeline(X_train, X_test, y_train, y_test)
  \<close>
  The value is the list of the four reports printed.
\<close>

definition evaluate_models_once ::
  "'g sklearn \<Rightarrow> rat list list \<Rightarrow> rat list \<Rightarrow> 'g \<Rightarrow> (error + report list) \<times> 'g" where
  "evaluate_models_once lib X y g =
     (case train_test_split lib X y (1 / 5) (Some 42) g of
        (Inl e, g') \<Rightarrow> (Inl e, g')
      | (Inr (X_train, X_test, y_train, y_test), g') \<Rightarrow>
          (case KN_pipeline lib X_train X_test y_train y_test of
             Inl e \<Rightarrow> (Inl e, g')
           | Inr (r1, KN_acc) \<Rightarrow>
          (case LR_pipeline lib X_train X_test y_train y_test of
             Inl e \<Rightarrow> (Inl e, g')
           | Inr (r2, LR_acc) \<Rightarrow>
          (case SVM_pipeline lib X_train X_test y_train y_test of
             Inl e \<Rightarrow> (Inl e, g')
           | Inr (r3, SVM_acc) \<Rightarrow>
          (case XGBoost_pipeline lib X_train X_test y_train y_test of
             Inl e \<Rightarrow> (Inl e, g')
           | Inr (r4, XGB_acc) \<Rightarrow> (Inr [r1, r2, r3, r4], g'))))))"

text \<open>
  One iteration raises no exception when, from every state of the global generator, the
  split returns and each pipeline returns on it.
\<close>

definition no_exception :: "'g sklearn \<Rightarrow> rat list list \<Rightarrow> rat list \<Rightarrow> bool" where
  "no_exception lib X y \<longleftrightarrow>
     (\<forall>g. \<exists>X_train X_test y_train y_test g'.
        train_test_split lib X y (1 / 5) None g = (Inr (X_train, X_test, y_train, y_test), g')
        \<and> (\<forall>clf name. \<exists>r a.
              run_pipeline lib clf name X_train X_test y_train y_test = Inr (r, a)))"

section \<open>Main\<close>

text \<open>
  The file system maps a path to the content of the CSV file there, already parsed: a
  frame whose cells may be missing. \<open>pd.read_csv\<close> raises FileNotFoundError for a path
  without a file. \<open>fetch_data\<close> is the function of the module \<open>data_fetch\<close>, which is not
  part of these sources; it is a parameter, a function on the file system.
\<close>

type_synonym raw_frame = "(string \<times> rat option list) list"
type_synonym files = "string \<Rightarrow> raw_frame option"

definition read_csv :: "files \<Rightarrow> string \<Rightarrow> error + raw_frame" where
  "read_csv fs path = (case fs path of None \<Rightarrow> Inl FileNotFoundError | Some raw \<Rightarrow> Inr raw)"

text \<open>
  \<open>df.dropna().reset_index(drop=True)\<close> keeps the rows without a missing cell, in their
  order.
\<close>

definition nrows :: "(string \<times> 'a list) list \<Rightarrow> nat" where
  "nrows df = (case df of [] \<Rightarrow> 0 | (c, xs) # rest \<Rightarrow> length xs)"

definition dropna :: "raw_frame \<Rightarrow> dataframe" where
  "dropna raw =
     (let keep = filter (\<lambda>i. list_all (\<lambda>(c, xs). xs ! i \<noteq> None) raw) [0..<nrows raw]
      in map (\<lambda>(c, xs). (c, map (\<lambda>i. the (xs ! i)) keep)) raw)"

text \<open>
  \<open>df[[...]]\<close> with a list of column names, as the list of the rows of the selection;
  KeyError when a name is not a column.
\<close>

definition select_columns :: "dataframe \<Rightarrow> string list \<Rightarrow> error + rat list list" where
  "select_columns df cols =
     (case filter (\<lambda>c. map_of df c = None) cols of
        c # rest \<Rightarrow> Inl (KeyError c)
      | [] \<Rightarrow> Inr (map (\<lambda>i. map (\<lambda>c. the (map_of df c) ! i) cols) [0..<nrows df]))"

definition feature_columns :: "string list" where
  "feature_columns =
     [''age'', ''sex'', ''cp'', ''trestbps'', ''chol'', ''fbs'', ''restecg'', ''thalach'',
      ''exang'', ''oldpeak'', ''slope'', ''ca'', ''thal'']"

text \<open>
  The first lines of \<open>main\<close>, with the calls they make in order:
  \<^verbatim>\<open>
      try:
          df = pd.read_csv('heart_disease.csv')
      except FileNotFoundError:
          fetch_data()
          try:
              df = pd.read_csv('heart_disease.csv')
          except FileNotFoundError:
              print('Error fetching data. Please try again.')
              exit(1)
  \<close>
  \<open>exit(1)\<close> raises SystemExit with the status 1.
\<close>

datatype event = Read_csv string | Fetch_data | Print string

definition load_data :: "(files \<Rightarrow> files) \<Rightarrow> files \<Rightarrow> event list \<times> (error + raw_frame) \<times> files" where
  "load_data fetch_data fs =
     (case read_csv fs ''heart_disease.csv'' of
        Inr df \<Rightarrow> ([Read_csv ''heart_disease.csv''], Inr df, fs)
      | Inl FileNotFoundError \<Rightarrow>
          (let fs' = fetch_data fs
           in case read_csv fs' ''heart_disease.csv'' of
                Inr df \<Rightarrow>
                  ([Read_csv ''heart_disease.csv'', Fetch_data, Read_csv ''heart_disease.csv''],
                   Inr df, fs')
              | Inl FileNotFoundError \<Rightarrow>
                  ([Read_csv ''heart_disease.csv'', Fetch_data, Read_csv ''heart_disease.csv'',
                    Print ''Error fetching data. Please try again.''],
                   Inl (SystemExit 1), fs')
              | Inl e \<Rightarrow>
                  ([Read_csv ''heart_disease.csv'', Fetch_data, Read_csv ''heart_disease.csv''],
                   Inl e, fs'))
      | Inl e \<Rightarrow> ([Read_csv ''heart_disease.csv''], Inl e, fs))"

text \<open>
  \<open>main\<close>: the calls of its first lines, and the plot and the reports of the two
  evaluations or the exception that ends the run.
\<close>

definition main ::
  "'g sklearn \<Rightarrow> (files \<Rightarrow> files) \<Rightarrow> files \<Rightarrow> 'g
     \<Rightarrow> event list \<times> (error + plot_row list \<times> report list)" where
  "main lib fetch_data fs g =
     (case load_data fetch_data fs of
        (events, Inl e, fs') \<Rightarrow> (events, Inl e)
      | (events, Inr raw, fs') \<Rightarrow>
          (events,
           (case process_target (dropna raw) of
              Inl e \<Rightarrow> Inl e
            | Inr df1 \<Rightarrow>
           (case handle_outliers df1 of
              Inl e \<Rightarrow> Inl e
            | Inr df \<Rightarrow>
           (case select_columns df feature_columns of
              Inl e \<Rightarrow> Inl e
            | Inr X \<Rightarrow>
           (case map_of df ''target'' of
              None \<Rightarrow> Inl (KeyError ''target'')
            | Some y \<Rightarrow>
           (case evaluate_models_iteratively lib X y 100 g of
              (Inl e, g1) \<Rightarrow> Inl e
            | (Inr plot, g1) \<Rightarrow>
           (case evaluate_models_once lib X y g1 of
              (Inl e, g2) \<Rightarrow> Inl e
            | (Inr reports, g2) \<Rightarrow> Inr (plot, reports)))))))))"

section \<open>Example data\<close>

text \<open>
  A frame of four patients with the fourteen columns of \<open>heart_disease.csv\<close>, the same
  frame after one pass of the outlier clipper, a frame that the clipper leaves as it is, and
  a store that holds the first at reference 0.
\<close>

definition example_frame :: dataframe where
  "example_frame =
     [(''age'', [0, 100, 100, 100]),
      (''sex'', [1, 0, 1, 1]),
      (''cp'', [1, 4, 3, 2]),
      (''trestbps'', [120, 130, 140, 150]),
      (''chol'', [200, 210, 220, 600]),
      (''fbs'', [0, 0, 1, 0]),
      (''restecg'', [0, 2, 0, 2]),
      (''thalach'', [150, 150, 150, 150]),
      (''exang'', [0, 1, 0, 0]),
      (''oldpeak'', [0, 1 / 2, 1, 3 / 2]),
      (''slope'', [1, 2, 2, 3]),
      (''ca'', [0, 3, 1, 0]),
      (''thal'', [3, 7, 6, 3]),
      (''num'', [0, 2, 1, 0])]"

definition example_clipped :: dataframe where
  "example_clipped =
     [(''age'', [75 / 2, 100, 100, 100]),
      (''sex'', [1, 0, 1, 1]),
      (''cp'', [1, 4, 3, 2]),
      (''trestbps'', [120, 130, 140, 150]),
      (''chol'', [200, 210, 220, 1905 / 4]),
      (''fbs'', [0, 0, 1, 0]),
      (''restecg'', [0, 2, 0, 2]),
      (''thalach'', [150, 150, 150, 150]),
      (''exang'', [0, 1, 0, 0]),
      (''oldpeak'', [0, 1 / 2, 1, 3 / 2]),
      (''slope'', [1, 2, 2, 3]),
      (''ca'', [0, 3, 1, 0]),
      (''thal'', [3, 7, 6, 3]),
      (''num'', [0, 2, 1, 0])]"

definition steady_frame :: dataframe where
  "steady_frame =
     [(''age'', [40, 50, 60, 70]),
      (''trestbps'', [120, 130, 140, 150]),
      (''chol'', [200, 210, 220, 230]),
      (''thalach'', [150, 150, 150, 150]),
      (''oldpeak'', [0, 1 / 2, 1, 3 / 2])]"

definition example_store :: store where
  "example_store r = (if r = 0 then example_frame else steady_frame)"

text \<open>
  A stand-in for the library, with the state of a generator a number: the permutation
  rotates \<open>0, ..., n - 1\<close> by the state, the nearest-neighbour classifier predicts 0 for
  every row, logistic regression predicts 1 for the rows whose first feature is over 50,
  and the other two classifiers predict 1 for every row.
\<close>

definition example_lib :: "nat sklearn" where
  "example_lib =
     \<lparr>permutation = (\<lambda>g n. (rotate g [0..<n], Suc g)),
      RandomState = (\<lambda>seed. seed),
      cross_val_score = (\<lambda>clf X y. Inr [1, 4 / 5, 3 / 5, 1, 4 / 5]),
      fit_predict = (\<lambda>clf X_train y_train X_test.
        Inr (map (\<lambda>row. case clf of
                          KNeighborsClassifier \<Rightarrow> 0
                        | LogisticRegression \<Rightarrow> (case row of [] \<Rightarrow> 0 | a # rest \<Rightarrow> if 50 < a then 1 else 0)
                        | _ \<Rightarrow> 1) X_test))\<rparr>"

definition example_X :: "rat list list" where
  "example_X = [[75 / 2, 1], [100, 0], [100, 1], [100, 1]]"

definition example_y :: "rat list" where
  "example_y = [0, 1, 1, 0]"

definition example_raw :: raw_frame where
  "example_raw = map (\<lambda>(c, xs). (c, map Some xs)) example_frame"

definition no_files :: files where
  "no_files path = None"

definition download :: "files \<Rightarrow> files" where
  "download fs = fs(''heart_disease.csv'' \<mapsto> example_raw)"

section \<open>Proofs\<close>

subsection \<open>Quantiles\<close>

lemma interpolate_between:
  assumes "sorted s" and "s \<noteq> []" and "0 \<le> h" and "h \<le> of_nat (length s - 1)"
  shows "s ! nat \<lfloor>h\<rfloor> \<le> interpolate s h"
    and "interpolate s h \<le> s ! min (nat \<lfloor>h\<rfloor> + 1) (length s - 1)"
proof -
  let ?lo = "nat \<lfloor>h\<rfloor>"
  let ?hi = "min (?lo + 1) (length s - 1)"
  let ?g = "h - of_nat ?lo"
  have lo: "(of_nat ?lo :: rat) = of_int \<lfloor>h\<rfloor>"
    using assms(3) by simp
  have g0: "0 \<le> ?g" and g1: "?g \<le> 1"
    unfolding lo by linarith+
  have "\<lfloor>h\<rfloor> \<le> int (length s - 1)"
    using assms(4) by (simp add: floor_le_iff)
  then have lo_le: "?lo \<le> length s - 1"
    by linarith
  have "length s - 1 < length s"
    using assms(2) by (cases s) auto
  then have hi_lt: "?hi < length s"
    by simp
  have "?lo \<le> ?hi"
    using lo_le by simp
  then have d: "0 \<le> s ! ?hi - s ! ?lo"
    using sorted_nth_mono [OF assms(1) _ hi_lt] by simp
  have eq: "interpolate s h = s ! ?lo + ?g * (s ! ?hi - s ! ?lo)"
    by (simp add: interpolate_def Let_def)
  show "s ! ?lo \<le> interpolate s h"
    unfolding eq using g0 d by simp
  have "?g * (s ! ?hi - s ! ?lo) \<le> 1 * (s ! ?hi - s ! ?lo)"
    using g1 d by (rule mult_right_mono)
  then show "interpolate s h \<le> s ! ?hi"
    unfolding eq by simp
qed

lemma interpolate_mono:
  assumes "sorted s" and "s \<noteq> []" and "0 \<le> h" and "h \<le> h'"
    and "h' \<le> of_nat (length s - 1)"
  shows "interpolate s h \<le> interpolate s h'"
proof -
  let ?lo = "nat \<lfloor>h\<rfloor>"
  let ?lo' = "nat \<lfloor>h'\<rfloor>"
  let ?hi = "min (?lo + 1) (length s - 1)"
  have h: "h \<le> of_nat (length s - 1)" and h': "0 \<le> h'"
    using assms by linarith+
  have le: "?lo \<le> ?lo'"
    using assms(4) by (simp add: floor_mono nat_mono)
  have "\<lfloor>h'\<rfloor> \<le> int (length s - 1)"
    using assms(5) by (simp add: floor_le_iff)
  then have lo'_le: "?lo' \<le> length s - 1"
    by linarith
  then have lo'_lt: "?lo' < length s"
    using assms(2) by (cases s) auto
  show ?thesis
  proof (cases "?lo = ?lo'")
    case True
    have lo_lt: "?lo < length s"
      using True lo'_lt by simp
    have hi_lt: "?hi < length s"
      using lo_lt by (simp add: min_def) arith
    have "?lo \<le> ?hi"
      using lo'_le True by simp
    then have d: "0 \<le> s ! ?hi - s ! ?lo"
      using sorted_nth_mono [OF assms(1) _ hi_lt] by simp
    have "(h - of_nat ?lo) * (s ! ?hi - s ! ?lo) \<le> (h' - of_nat ?lo) * (s ! ?hi - s ! ?lo)"
      using assms(4) d by (intro mult_right_mono) simp_all
    then show ?thesis
      using True by (simp add: interpolate_def Let_def)
  next
    case False
    then have "?lo + 1 \<le> ?lo'"
      using le by simp
    then have "?hi \<le> ?lo'"
      by simp
    then have "s ! ?hi \<le> s ! ?lo'"
      using sorted_nth_mono [OF assms(1) _ lo'_lt] by simp
    moreover have "interpolate s h \<le> s ! ?hi"
      using interpolate_between(2) [OF assms(1,2,3) h] .
    moreover have "s ! ?lo' \<le> interpolate s h'"
      using interpolate_between(1) [OF assms(1,2) h' assms(5)] .
    ultimately show ?thesis
      by linarith
  qed
qed

lemma quantile_mono:
  assumes "quantile xs q = Some a" and "quantile xs q' = Some b"
    and "0 \<le> q" and "q \<le> q'" and "q' \<le> 1"
  shows "a \<le> b"
proof -
  have ne: "xs \<noteq> []"
    using assms(1) by (auto simp: quantile_def split: if_splits)
  let ?n = "of_nat (length xs - 1) :: rat"
  have n0: "0 \<le> ?n" by simp
  have 1: "0 \<le> ?n * q" using assms(3) n0 by simp
  have 2: "?n * q \<le> ?n * q'" using assms(4) n0 by (rule mult_left_mono)
  have "?n * q' \<le> ?n * 1" using assms(5) n0 by (rule mult_left_mono)
  then have 3: "?n * q' \<le> of_nat (length (sort xs) - 1)" by simp
  have sne: "sort xs \<noteq> []"
    using ne by (metis length_0_conv length_sort)
  have "interpolate (sort xs) (?n * q) \<le> interpolate (sort xs) (?n * q')"
    using sne by (intro interpolate_mono [OF _ _ 1 2 3]) simp_all
  then show ?thesis
    using assms(1,2) ne by (simp add: quantile_def)
qed

subsection \<open>Target encoder\<close>

lemma process_target_Inr:
  assumes "map_of df ''num'' = Some xs"
  shows "process_target df =
    Inr (AList.delete ''num'' (AList.update ''target'' (map (\<lambda>x. if x > 0 then 1 else 0) xs) df))"
  using assms by (simp add: process_target_def)

text \<open>
  Claim C1. For every dataframe with a \<open>num\<close> column, the target encoder returns a frame
  whose \<open>target\<close> column has one label per row, every label is 0 or 1, the label of a row
  is 1 exactly when the severity of that row is strictly greater than 0, and the result has
  no \<open>num\<close> column any more.
\<close>
theorem process_target_binary:
  assumes "map_of df ''num'' = Some xs"
  shows "\<exists>df' ys. process_target df = Inr df'
           \<and> map_of df' ''target'' = Some ys
           \<and> length ys = length xs
           \<and> set ys \<subseteq> {0, 1}
           \<and> (\<forall>i < length xs. (ys ! i = 1) = (xs ! i > 0))
           \<and> map_of df' ''num'' = None
           \<and> ''num'' \<notin> fst ` set df'"
proof -
  let ?ys = "map (\<lambda>x. if x > 0 then 1 else 0 :: rat) xs"
  let ?df' = "AList.delete ''num'' (AList.update ''target'' ?ys df)"
  have 1: "process_target df = Inr ?df'"
    using assms by (rule process_target_Inr)
  have 2: "map_of ?df' ''target'' = Some ?ys"
    by (simp add: delete_conv' update_conv')
  have 3: "set ?ys \<subseteq> {0, 1}"
    by auto
  have 4: "\<forall>i < length xs. (?ys ! i = 1) = (xs ! i > 0)"
    by simp
  have 5: "map_of ?df' ''num'' = None"
    by (simp add: delete_conv')
  have 6: "''num'' \<notin> fst ` set ?df'"
    by (rule delete_notin_dom)
  show ?thesis
    using 1 2 3 4 5 6 by (intro exI [of _ ?df'] exI [of _ ?ys]) simp
qed

theorem process_target_binary_witness:
  "map_of example_frame ''num'' = Some [0, 2, 1, 0]
   \<and> (\<exists>df'. process_target example_frame = Inr df'
          \<and> map_of df' ''target'' = Some [0, 1, 1, 0]
          \<and> map_of df' ''num'' = None)"
proof -
  have h: "map_of example_frame ''num'' = Some [0, 2, 1, 0]"
    by (simp add: example_frame_def)
  from process_target_binary [OF h]
  obtain df' ys where r: "process_target example_frame = Inr df'"
    and t: "map_of df' ''target'' = Some ys" and l: "length ys = length [0, 2, 1, 0 :: rat]"
    and v: "\<forall>i < length [0, 2, 1, 0 :: rat]. (ys ! i = 1) = ([0, 2, 1, 0 :: rat] ! i > 0)"
    and b: "set ys \<subseteq> {0, 1}"
    and n: "map_of df' ''num'' = None"
    by blast
  have "process_target example_frame =
      Inr (AList.delete ''num'' (AList.update ''target'' [0, 1, 1, 0] example_frame))"
    using process_target_Inr [OF h] by simp
  with r t have "ys = [0, 1, 1, 0]"
    by (auto simp: delete_conv' update_conv')
  with h r t n show ?thesis
    by simp
qed

subsection \<open>One column\<close>

lemma quantile_Some:
  "xs \<noteq> [] \<Longrightarrow> \<exists>a. quantile xs q = Some a"
  by (simp add: quantile_def)

lemma quantile_None [simp]:
  "quantile [] q = None"
  by (simp add: quantile_def)

lemma quartiles_ordered:
  assumes "quantile xs (1 / 4) = Some q1" and "quantile xs (3 / 4) = Some q3"
  shows "q1 \<le> q3"
  using assms by (rule quantile_mono) simp_all

lemma bounds_ordered:
  assumes "q1 \<le> q3"
  shows "lower_bound q1 q3 \<le> upper_bound q1 q3"
proof -
  have "0 \<le> (3 / 2) * (q3 - q1)"
    using assms by simp
  then show ?thesis
    unfolding lower_bound_def upper_bound_def using assms by linarith
qed

lemma clip_column_Some:
  assumes "quantile xs (1 / 4) = Some q1" and "quantile xs (3 / 4) = Some q3"
  shows "clip_column xs =
    map (\<lambda>x. max (lower_bound q1 q3) (min (upper_bound q1 q3) x)) xs"
proof -
  have "lower_bound q1 q3 \<le> upper_bound q1 q3"
    using assms by (intro bounds_ordered quartiles_ordered)
  then show ?thesis
    using assms by (auto simp: clip_column_def Let_def max_def min_def)
qed

lemma clip_column_Nil [simp]:
  "clip_column [] = []"
  by (simp add: clip_column_def)

lemma clip_column_length [simp]:
  "length (clip_column xs) = length xs"
  by (simp add: clip_column_def Let_def split: option.splits)

lemma clip_column_bounds:
  assumes "quantile xs (1 / 4) = Some q1" and "quantile xs (3 / 4) = Some q3"
    and "y \<in> set (clip_column xs)"
  shows "lower_bound q1 q3 \<le> y \<and> y \<le> upper_bound q1 q3"
proof -
  have "lower_bound q1 q3 \<le> upper_bound q1 q3"
    using assms(1,2) by (intro bounds_ordered quartiles_ordered)
  then show ?thesis
    using assms(3) unfolding clip_column_Some [OF assms(1,2)] by auto
qed

lemma clip_column_monotone:
  "\<exists>f. mono f \<and> clip_column xs = map f xs"
proof (cases "xs = []")
  case True
  then show ?thesis
    by (intro exI [of _ id]) (simp add: mono_def)
next
  case False
  then obtain q1 q3 where q: "quantile xs (1 / 4) = Some q1" "quantile xs (3 / 4) = Some q3"
    using quantile_Some by blast
  have "mono (\<lambda>x. max (lower_bound q1 q3) (min (upper_bound q1 q3) x))"
    by (auto simp: mono_def max_def min_def)
  then show ?thesis
    using clip_column_Some [OF q] by blast
qed

lemma clip_column_fixed:
  "clip_column ys = ys \<longleftrightarrow> within_fences ys"
proof (cases "ys = []")
  case True
  then show ?thesis
    by (simp add: within_fences_def)
next
  case False
  then obtain q1 q3 where q: "quantile ys (1 / 4) = Some q1" "quantile ys (3 / 4) = Some q3"
    using quantile_Some by blast
  have le: "lower_bound q1 q3 \<le> upper_bound q1 q3"
    using q by (intro bounds_ordered quartiles_ordered)
  let ?f = "\<lambda>x. max (lower_bound q1 q3) (min (upper_bound q1 q3) x)"
  have "map ?f ys = ys \<longleftrightarrow> map ?f ys = map id ys"
    by simp
  also have "\<dots> \<longleftrightarrow> (\<forall>y\<in>set ys. ?f y = id y)"
    by (rule map_eq_conv)
  also have "\<dots> \<longleftrightarrow> (\<forall>y\<in>set ys. lower_bound q1 q3 \<le> y \<and> y \<le> upper_bound q1 q3)"
    using le by (auto simp: max_def min_def split: if_splits)
  finally show ?thesis
    using q by (simp add: clip_column_Some [OF q] within_fences_def list_all_iff)
qed

subsection \<open>The loop\<close>

lemma handle_outliers_loop_ok:
  assumes "distinct cols" and "set cols \<subseteq> fst ` set df"
  shows "\<exists>df'. handle_outliers_loop cols df = (df', None)
           \<and> map fst df' = map fst df
           \<and> (\<forall>c. map_of df' c =
                 (if c \<in> set cols then map_option clip_column (map_of df c) else map_of df c))"
  using assms
proof (induction cols arbitrary: df)
  case Nil
  then show ?case by simp
next
  case (Cons col cols)
  from Cons.prems obtain xs where xs: "map_of df col = Some xs"
    by (metis insert_subset list.simps(15) map_of_eq_None_iff not_Some_eq)
  let ?df1 = "AList.update col (clip_column xs) df"
  have keys: "map fst ?df1 = map fst df"
    using Cons.prems(2) by (simp add: update_keys)
  have "set cols \<subseteq> fst ` set ?df1"
    using Cons.prems(2) by (auto simp: dom_update)
  with Cons.IH [of ?df1] Cons.prems(1)
  obtain df' where df': "handle_outliers_loop cols ?df1 = (df', None)"
    "map fst df' = map fst ?df1"
    "\<forall>c. map_of df' c =
       (if c \<in> set cols then map_option clip_column (map_of ?df1 c) else map_of ?df1 c)"
    by auto
  have "handle_outliers_loop (col # cols) df = (df', None)"
    using xs df'(1) by simp
  moreover have "map fst df' = map fst df"
    using df'(2) keys by simp
  moreover have "\<forall>c. map_of df' c =
      (if c \<in> set (col # cols) then map_option clip_column (map_of df c) else map_of df c)"
    using df'(3) xs Cons.prems(1) by (auto simp: update_conv')
  ultimately show ?case
    by blast
qed

lemma handle_outliers_loop_missing:
  assumes "\<not> set cols \<subseteq> fst ` set df"
  shows "\<exists>df' c. handle_outliers_loop cols df = (df', Some (KeyError c)) \<and> c \<in> set cols
           \<and> c \<notin> fst ` set df"
  using assms
proof (induction cols arbitrary: df)
  case Nil
  then show ?case by simp
next
  case (Cons col cols)
  show ?case
  proof (cases "map_of df col")
    case None
    then have "col \<notin> fst ` set df"
      by (simp add: map_of_eq_None_iff)
    with None show ?thesis
      by simp
  next
    case (Some xs)
    let ?df1 = "AList.update col (clip_column xs) df"
    from Some have in_df: "col \<in> fst ` set df"
      by (metis map_of_eq_None_iff option.distinct(1))
    then have same: "fst ` set ?df1 = fst ` set df"
      by (auto simp: dom_update)
    with Cons.prems in_df have "\<not> set cols \<subseteq> fst ` set ?df1"
      by auto
    from Cons.IH [OF this] same Some show ?thesis
      by auto
  qed
qed

lemma handle_outliers_loop_id:
  assumes "set cols \<subseteq> fst ` set df"
    and "\<forall>c\<in>set cols. \<forall>xs. map_of df c = Some xs \<longrightarrow> clip_column xs = xs"
  shows "handle_outliers_loop cols df = (df, None)"
  using assms
proof (induction cols)
  case Nil
  then show ?case by simp
next
  case (Cons col cols)
  from Cons.prems(1) obtain xs where xs: "map_of df col = Some xs"
    by (metis insert_subset list.simps(15) map_of_eq_None_iff not_Some_eq)
  with Cons.prems(2) have "clip_column xs = xs"
    by simp
  with xs have "AList.update col (clip_column xs) df = df"
    by (simp add: update_triv)
  with Cons xs show ?case
    by simp
qed

lemma distinct_bounded_columns:
  "distinct bounded_columns"
  by (simp add: bounded_columns_def)

lemma handle_outliers_ok:
  assumes "set bounded_columns \<subseteq> fst ` set df"
  shows "\<exists>df'. handle_outliers df = Inr df'
           \<and> handle_outliers_loop bounded_columns df = (df', None)
           \<and> map fst df' = map fst df
           \<and> (\<forall>c. map_of df' c =
                 (if c \<in> set bounded_columns then map_option clip_column (map_of df c)
                  else map_of df c))"
  using handle_outliers_loop_ok [OF distinct_bounded_columns assms]
  by (auto simp: handle_outliers_def)

lemma handle_outliers_KeyError:
  assumes "\<not> set bounded_columns \<subseteq> fst ` set df"
  shows "\<exists>c. handle_outliers df = Inl (KeyError c) \<and> c \<in> set bounded_columns
           \<and> c \<notin> fst ` set df"
  using handle_outliers_loop_missing [OF assms]
  by (auto simp: handle_outliers_def)

lemma example_frame_columns:
  "set bounded_columns \<subseteq> fst ` set example_frame"
  by (simp add: bounded_columns_def example_frame_def)

lemma handle_outliers_example:
  "handle_outliers example_frame = Inr example_clipped"
  by code_simp

text \<open>
  Claim C2. On every dataset that has the five bounded columns, the outlier clipper
  returns, and after it every cell of each bounded column lies between
  \<open>Q1 - 1.5 * IQR\<close> and \<open>Q3 + 1.5 * IQR\<close>, where \<open>Q1\<close> and \<open>Q3\<close> are the 25th and 75th
  percentiles of that column as it stands when it is clipped. The loop writes to no column
  but the one it clips and the five names are distinct, so that column is the one of the
  input.
\<close>
theorem handle_outliers_within_fences:
  assumes "set bounded_columns \<subseteq> fst ` set df"
  shows "\<exists>df'. handle_outliers df = Inr df'
           \<and> (\<forall>col\<in>set bounded_columns. \<exists>xs ys.
                 map_of df col = Some xs \<and> map_of df' col = Some ys
                 \<and> (\<forall>y\<in>set ys. \<exists>q1 q3.
                       quantile xs (1 / 4) = Some q1 \<and> quantile xs (3 / 4) = Some q3
                       \<and> q1 - (3 / 2) * (q3 - q1) \<le> y \<and> y \<le> q3 + (3 / 2) * (q3 - q1)))"
proof -
  from handle_outliers_ok [OF assms]
  obtain df' where r: "handle_outliers df = Inr df'"
    and m: "\<forall>c. map_of df' c =
      (if c \<in> set bounded_columns then map_option clip_column (map_of df c) else map_of df c)"
    by blast
  have "\<exists>xs ys. map_of df col = Some xs \<and> map_of df' col = Some ys
          \<and> (\<forall>y\<in>set ys. \<exists>q1 q3.
                quantile xs (1 / 4) = Some q1 \<and> quantile xs (3 / 4) = Some q3
                \<and> q1 - (3 / 2) * (q3 - q1) \<le> y \<and> y \<le> q3 + (3 / 2) * (q3 - q1))"
    if col: "col \<in> set bounded_columns" for col
  proof -
    from col assms obtain xs where xs: "map_of df col = Some xs"
      by (metis map_of_eq_None_iff not_Some_eq subsetD)
    with m col have ys: "map_of df' col = Some (clip_column xs)"
      by simp
    have "\<exists>q1 q3. quantile xs (1 / 4) = Some q1 \<and> quantile xs (3 / 4) = Some q3
            \<and> q1 - (3 / 2) * (q3 - q1) \<le> y \<and> y \<le> q3 + (3 / 2) * (q3 - q1)"
      if y: "y \<in> set (clip_column xs)" for y
    proof -
      from y have "xs \<noteq> []"
        by auto
      then obtain q1 q3 where q: "quantile xs (1 / 4) = Some q1" "quantile xs (3 / 4) = Some q3"
        using quantile_Some by blast
      from clip_column_bounds [OF q y] q show ?thesis
        by (simp add: lower_bound_def upper_bound_def)
    qed
    with xs ys show ?thesis
      by blast
  qed
  with r show ?thesis
    by blast
qed

theorem handle_outliers_within_fences_witness:
  "set bounded_columns \<subseteq> fst ` set example_frame
   \<and> map_of example_frame ''chol'' = Some [200, 210, 220, 600]
   \<and> quantile [200, 210, 220, 600] (1 / 4) = Some (415 / 2)
   \<and> quantile [200, 210, 220, 600] (3 / 4) = Some 315
   \<and> (\<exists>df' ys. handle_outliers example_frame = Inr df'
          \<and> map_of df' ''chol'' = Some ys
          \<and> (\<forall>y\<in>set ys. 185 / 4 \<le> y \<and> y \<le> 1905 / 4))"
proof -
  have x: "map_of example_frame ''chol'' = Some [200, 210, 220, 600]"
    by (simp add: example_frame_def)
  have q1: "quantile [200, 210, 220, 600] (1 / 4) = Some (415 / 2)"
    by code_simp
  have q3: "quantile [200, 210, 220, 600] (3 / 4) = Some 315"
    by code_simp
  have c: "''chol'' \<in> set bounded_columns"
    by (simp add: bounded_columns_def)
  from handle_outliers_within_fences [OF example_frame_columns]
  obtain df' where r: "handle_outliers example_frame = Inr df'"
    and b: "\<forall>col\<in>set bounded_columns. \<exists>xs ys.
                 map_of example_frame col = Some xs \<and> map_of df' col = Some ys
                 \<and> (\<forall>y\<in>set ys. \<exists>q1 q3.
                       quantile xs (1 / 4) = Some q1 \<and> quantile xs (3 / 4) = Some q3
                       \<and> q1 - (3 / 2) * (q3 - q1) \<le> y \<and> y \<le> q3 + (3 / 2) * (q3 - q1))"
    by blast
  from b c x obtain ys where ys: "map_of df' ''chol'' = Some ys"
    and f: "\<forall>y\<in>set ys. \<exists>q1 q3.
              quantile [200, 210, 220, 600] (1 / 4) = Some q1
              \<and> quantile [200, 210, 220, 600] (3 / 4) = Some q3
              \<and> q1 - (3 / 2) * (q3 - q1) \<le> y \<and> y \<le> q3 + (3 / 2) * (q3 - q1)"
    by fastforce
  have "185 / 4 \<le> y \<and> y \<le> 1905 / 4" if "y \<in> set ys" for y
  proof -
    from f that obtain a b where "quantile [200, 210, 220, 600] (1 / 4) = Some a"
      and "quantile [200, 210, 220, 600] (3 / 4) = Some b"
      and le: "a - (3 / 2) * (b - a) \<le> y" "y \<le> b + (3 / 2) * (b - a)"
      by blast
    with q1 q3 have "a = 415 / 2" and "b = 315"
      by simp_all
    with le show ?thesis
      by simp
  qed
  then have "\<forall>y\<in>set ys. 185 / 4 \<le> y \<and> y \<le> 1905 / 4"
    by blast
  with example_frame_columns x q1 q3 r ys show ?thesis
    by blast
qed

text \<open>
  Claim C10. On every dataset that has the five bounded columns, the outlier clipper keeps
  the columns and their order, leaves every column other than the five bounded ones as it
  is, and maps every column cell by cell through a monotone function: the rows are as many
  as before and each stays at its position.
\<close>
theorem handle_outliers_other_columns:
  assumes "set bounded_columns \<subseteq> fst ` set df"
  shows "\<exists>df'. handle_outliers df = Inr df'
           \<and> map fst df' = map fst df
           \<and> (\<forall>c. c \<notin> set bounded_columns \<longrightarrow> map_of df' c = map_of df c)
           \<and> (\<forall>c xs. map_of df c = Some xs \<longrightarrow>
                 (\<exists>f. mono f \<and> map_of df' c = Some (map f xs)))"
proof -
  from handle_outliers_ok [OF assms]
  obtain df' where r: "handle_outliers df = Inr df'"
    and k: "map fst df' = map fst df"
    and m: "\<forall>c. map_of df' c =
      (if c \<in> set bounded_columns then map_option clip_column (map_of df c) else map_of df c)"
    by blast
  have "\<exists>f. mono f \<and> map_of df' c = Some (map f xs)" if xs: "map_of df c = Some xs" for c xs
  proof (cases "c \<in> set bounded_columns")
    case True
    with m xs have "map_of df' c = Some (clip_column xs)"
      by simp
    with clip_column_monotone [of xs] show ?thesis
      by auto
  next
    case False
    with m xs have "map_of df' c = Some (map id xs)"
      by simp
    moreover have "mono (id :: rat \<Rightarrow> rat)"
      by (simp add: mono_def)
    ultimately show ?thesis
      by blast
  qed
  with r k m show ?thesis
    by auto
qed

theorem handle_outliers_other_columns_witness:
  "set bounded_columns \<subseteq> fst ` set example_frame
   \<and> ''ca'' \<notin> set bounded_columns
   \<and> (\<exists>df'. handle_outliers example_frame = Inr df'
          \<and> map fst df' = map fst example_frame
          \<and> map_of df' ''ca'' = Some [0, 3, 1, 0]
          \<and> (\<exists>f. mono f \<and> map_of df' ''age'' = Some (map f [0, 100, 100, 100 :: rat])))"
proof -
  have ca: "''ca'' \<notin> set bounded_columns"
    by (simp add: bounded_columns_def)
  have x: "map_of example_frame ''ca'' = Some [0, 3, 1, 0]"
    by (simp add: example_frame_def)
  have a: "map_of example_frame ''age'' = Some [0, 100, 100, 100]"
    by (simp add: example_frame_def)
  from handle_outliers_other_columns [OF example_frame_columns]
  obtain df' where r: "handle_outliers example_frame = Inr df'"
    and k: "map fst df' = map fst example_frame"
    and o: "\<forall>c. c \<notin> set bounded_columns \<longrightarrow> map_of df' c = map_of example_frame c"
    and f: "\<forall>c xs. map_of example_frame c = Some xs \<longrightarrow>
                 (\<exists>f. mono f \<and> map_of df' c = Some (map f xs))"
    by blast
  from o ca x have "map_of df' ''ca'' = Some [0, 3, 1, 0]"
    by simp
  moreover from f a have "\<exists>f. mono f \<and> map_of df' ''age'' = Some (map f [0, 100, 100, 100 :: rat])"
    by blast
  ultimately show ?thesis
    using example_frame_columns ca r k by blast
qed

text \<open>
  Claim C9 says that clipping the output of the clipper again changes nothing. It does:
  the column \<open>age = [0, 100, 100, 100]\<close> has the quartiles 75 and 100 and the lower fence
  37.5, so the first pass gives \<open>[37.5, 100, 100, 100]\<close>; that column has the quartiles
  84.375 and 100 and the lower fence 60.9375, so the second pass moves 37.5 again.
\<close>
theorem handle_outliers_twice_counterexample:
  "handle_outliers example_frame = Inr example_clipped
   \<and> handle_outliers example_clipped \<noteq> Inr example_clipped"
  by code_simp

text \<open>
  Claim C9, amended. Applying the clipper to its own output gives the same dataset exactly
  when every bounded column of that output lies within the fences recomputed from it.
\<close>
theorem handle_outliers_twice:
  assumes "handle_outliers df = Inr df'"
  shows "handle_outliers df' = Inr df' \<longleftrightarrow>
    (\<forall>col\<in>set bounded_columns. \<forall>ys. map_of df' col = Some ys \<longrightarrow> within_fences ys)"
proof -
  have d: "set bounded_columns \<subseteq> fst ` set df"
    using assms handle_outliers_KeyError [of df] by (cases "set bounded_columns \<subseteq> fst ` set df") auto
  from handle_outliers_ok [OF d] assms have "map fst df' = map fst df"
    by auto
  then have "set (map fst df') = set (map fst df)"
    by simp
  with d have d': "set bounded_columns \<subseteq> fst ` set df'"
    by simp
  show ?thesis
  proof
    assume same: "handle_outliers df' = Inr df'"
    from handle_outliers_ok [OF d'] same
    have "\<forall>c. map_of df' c =
      (if c \<in> set bounded_columns then map_option clip_column (map_of df' c) else map_of df' c)"
      by auto
    then have "\<forall>col\<in>set bounded_columns. \<forall>ys. map_of df' col = Some ys \<longrightarrow> clip_column ys = ys"
      by (metis option.inject option.simps(9))
    then show "\<forall>col\<in>set bounded_columns. \<forall>ys. map_of df' col = Some ys \<longrightarrow> within_fences ys"
      by (simp add: clip_column_fixed)
  next
    assume "\<forall>col\<in>set bounded_columns. \<forall>ys. map_of df' col = Some ys \<longrightarrow> within_fences ys"
    then have "\<forall>c\<in>set bounded_columns. \<forall>xs. map_of df' c = Some xs \<longrightarrow> clip_column xs = xs"
      by (simp add: clip_column_fixed)
    from handle_outliers_loop_id [OF d' this] show "handle_outliers df' = Inr df'"
      by (simp add: handle_outliers_def)
  qed
qed

theorem handle_outliers_twice_witness:
  "handle_outliers steady_frame = Inr steady_frame
   \<and> ''age'' \<in> set bounded_columns
   \<and> map_of steady_frame ''age'' = Some [40, 50, 60, 70]
   \<and> within_fences [40, 50, 60, 70]"
proof -
  have h: "handle_outliers steady_frame = Inr steady_frame"
    by code_simp
  have a: "map_of steady_frame ''age'' = Some [40, 50, 60, 70]"
    by (simp add: steady_frame_def)
  have c: "''age'' \<in> set bounded_columns"
    by (simp add: bounded_columns_def)
  from handle_outliers_twice [OF h] h
  have w: "\<forall>col\<in>set bounded_columns. \<forall>ys. map_of steady_frame col = Some ys \<longrightarrow> within_fences ys"
    by simp
  with a c have "within_fences [40, 50, 60, 70]"
    by blast
  with h a c show ?thesis
    by simp
qed

text \<open>
  Claim C7 says that the call leaves the caller's dataframe object as it was. The
  assignments \<open>df[col] = ...\<close> write into that object: after the call on the example frame
  the object at reference 0 holds the clipped frame.
\<close>
theorem handle_outliers_inplace_counterexample:
  "fst (handle_outliers_inplace 0 example_store) = Inr 0
   \<and> snd (handle_outliers_inplace 0 example_store) 0 \<noteq> example_store 0"
  by code_simp

text \<open>
  Claim C7, amended. On every dataframe object that has the five bounded columns, the
  outlier clipper overwrites that object with its clipped contents and returns the same
  reference; it has no other effect: every other object of the store is left as it was.
\<close>
theorem handle_outliers_inplace_effect:
  assumes "set bounded_columns \<subseteq> fst ` set (s r)"
  shows "\<exists>df'. handle_outliers (s r) = Inr df'
           \<and> fst (handle_outliers_inplace r s) = Inr r
           \<and> snd (handle_outliers_inplace r s) r = df'
           \<and> (\<forall>r'. r' \<noteq> r \<longrightarrow> snd (handle_outliers_inplace r s) r' = s r')"
  using handle_outliers_ok [OF assms]
  by (auto simp: handle_outliers_inplace_def)

theorem handle_outliers_inplace_effect_witness:
  "set bounded_columns \<subseteq> fst ` set (example_store 0)
   \<and> handle_outliers (example_store 0) = Inr example_clipped
   \<and> fst (handle_outliers_inplace 0 example_store) = Inr 0
   \<and> snd (handle_outliers_inplace 0 example_store) 0 = example_clipped
   \<and> snd (handle_outliers_inplace 0 example_store) 1 = example_store 1"
proof -
  have e: "example_store 0 = example_frame"
    by (simp add: example_store_def)
  have c: "set bounded_columns \<subseteq> fst ` set (example_store 0)"
    unfolding e by (rule example_frame_columns)
  have h: "handle_outliers (example_store 0) = Inr example_clipped"
    unfolding e by (rule handle_outliers_example)
  from handle_outliers_inplace_effect [of example_store 0] c h
  have "fst (handle_outliers_inplace 0 example_store) = Inr 0"
    and "snd (handle_outliers_inplace 0 example_store) 0 = example_clipped"
    and "\<forall>r'. r' \<noteq> 0 \<longrightarrow> snd (handle_outliers_inplace 0 example_store) r' = example_store r'"
    by auto
  with c h show ?thesis
    by simp
qed

subsection \<open>Metrics\<close>

lemma count_pairs_no_prediction:
  assumes "v \<notin> set y_pred"
  shows "count_pairs (\<lambda>t p. Q t \<and> p = v) y_true y_pred = 0"
proof -
  have "\<not> (Q t \<and> p = v)" if "(t, p) \<in> set (zip y_true y_pred)" for t p
    using assms set_zip_rightD [OF that] by auto
  then have "filter (\<lambda>(t, p). Q t \<and> p = v) (zip y_true y_pred) = []"
    by (auto simp: filter_empty_conv)
  then show ?thesis
    by (simp add: count_pairs_def)
qed

lemma count_pairs_no_label:
  assumes "v \<notin> set y_true"
  shows "count_pairs (\<lambda>t p. t = v \<and> Q p) y_true y_pred = 0"
proof -
  have "\<not> (t = v \<and> Q p)" if "(t, p) \<in> set (zip y_true y_pred)" for t p
    using assms set_zip_leftD [OF that] by auto
  then have "filter (\<lambda>(t, p). t = v \<and> Q p) (zip y_true y_pred) = []"
    by (auto simp: filter_empty_conv)
  then show ?thesis
    by (simp add: count_pairs_def)
qed

lemma precision_score_zero_division:
  assumes "1 \<notin> set y_pred"
  shows "precision_score y_true y_pred zero_division = zero_division"
  using count_pairs_no_prediction [OF assms, of "\<lambda>t. t = 1" y_true]
    count_pairs_no_prediction [OF assms, of "\<lambda>t. t \<noteq> 1" y_true]
  by (simp add: precision_score_def)

lemma recall_score_zero_division:
  assumes "1 \<notin> set y_true"
  shows "recall_score y_true y_pred zero_division = zero_division"
  using count_pairs_no_label [OF assms, of "\<lambda>p. p = 1" y_pred]
    count_pairs_no_label [OF assms, of "\<lambda>p. p \<noteq> 1" y_pred]
  by (simp add: recall_score_def)

lemma py_round_one [simp]:
  "py_round 1 3 = 1"
  by (simp add: py_round_def)

lemma results_Inr:
  assumes "valid_targets y_test y_pred"
  shows "results y_test y_pred =
    Inr (print_results (precision_score y_test y_pred 1) (recall_score y_test y_pred 1)
           (accuracy_score y_test y_pred) (mean_squared_error y_test y_pred))"
  using assms by (simp add: results_def)

text \<open>
  Claim C4. On label vectors that the metric functions accept, the metrics step returns its
  table and raises nothing; when no row is predicted positive, the denominator of the
  precision is zero and the table shows the precision 1, and when no row is labelled
  positive, the denominator of the recall is zero and the table shows the recall 1.
\<close>
theorem results_zero_division:
  assumes "valid_targets y_test y_pred"
  shows "\<exists>table. results y_test y_pred = Inr table
           \<and> (1 \<notin> set y_pred \<longrightarrow> map_of table ''Precision'' = Some 1)
           \<and> (1 \<notin> set y_test \<longrightarrow> map_of table ''Recall'' = Some 1)"
proof -
  let ?table = "print_results (precision_score y_test y_pred 1) (recall_score y_test y_pred 1)
           (accuracy_score y_test y_pred) (mean_squared_error y_test y_pred)"
  have "results y_test y_pred = Inr ?table"
    using assms by (rule results_Inr)
  moreover have "map_of ?table ''Precision'' = Some 1" if "1 \<notin> set y_pred"
    using precision_score_zero_division [OF that] by (simp add: print_results_def)
  moreover have "map_of ?table ''Recall'' = Some 1" if "1 \<notin> set y_test"
    using recall_score_zero_division [OF that] by (simp add: print_results_def)
  ultimately show ?thesis
    by blast
qed

theorem results_zero_division_witness:
  "valid_targets [1, 0, 1] [0, 0, 0]
   \<and> 1 \<notin> set [0, 0, 0 :: rat]
   \<and> (\<exists>table. results [1, 0, 1] [0, 0, 0] = Inr table
          \<and> map_of table ''Precision'' = Some 1)
   \<and> valid_targets [0, 0, 0] [0, 1, 0]
   \<and> 1 \<notin> set [0, 0, 0 :: rat]
   \<and> (\<exists>table. results [0, 0, 0] [0, 1, 0] = Inr table
          \<and> map_of table ''Recall'' = Some 1)"
proof -
  have v1: "valid_targets [1, 0, 1] [0, 0, 0]"
    by (simp add: valid_targets_def)
  have v2: "valid_targets [0, 0, 0] [0, 1, 0]"
    by (simp add: valid_targets_def)
  have n: "1 \<notin> set [0, 0, 0 :: rat]"
    by simp
  from results_zero_division [OF v1] n
  have 1: "\<exists>table. results [1, 0, 1] [0, 0, 0] = Inr table
          \<and> map_of table ''Precision'' = Some 1"
    by blast
  from results_zero_division [OF v2] n
  have 2: "\<exists>table. results [0, 0, 0] [0, 1, 0] = Inr table
          \<and> map_of table ''Recall'' = Some 1"
    by blast
  from v1 v2 n 1 2 show ?thesis
    by blast
qed

subsection \<open>Evaluation harness\<close>

lemma sort_Nil_iff [simp]:
  "sort xs = [] \<longleftrightarrow> xs = []"
  by (metis length_0_conv length_sort)

lemma pipelines_ok:
  assumes "\<forall>clf name. \<exists>r a. run_pipeline lib clf name X_train X_test y_train y_test = Inr (r, a)"
  shows "\<exists>r1 a1 r2 a2 r3 a3 r4 a4.
      KN_pipeline lib X_train X_test y_train y_test = Inr (r1, a1)
    \<and> LR_pipeline lib X_train X_test y_train y_test = Inr (r2, a2)
    \<and> SVM_pipeline lib X_train X_test y_train y_test = Inr (r3, a3)
    \<and> XGBoost_pipeline lib X_train X_test y_train y_test = Inr (r4, a4)"
  using assms unfolding KN_pipeline_def LR_pipeline_def SVM_pipeline_def XGBoost_pipeline_def
  by metis

lemma iterations_ok:
  assumes "no_exception lib X y"
  shows "\<exists>acc' g'. iterations lib X y k acc g = (Inr acc', g')
    \<and> length (KNeighbors acc') = length (KNeighbors acc) + k
    \<and> length (Logistic_Regression acc') = length (Logistic_Regression acc) + k
    \<and> length (SVM acc') = length (SVM acc) + k
    \<and> length (XGBoost acc') = length (XGBoost acc) + k"
proof (induction k arbitrary: acc g)
  case 0
  show ?case by simp
next
  case (Suc k)
  from assms obtain X_train X_test y_train y_test g1
    where sp: "train_test_split lib X y (1 / 5) None g = (Inr (X_train, X_test, y_train, y_test), g1)"
      and p: "\<forall>clf name. \<exists>r a. run_pipeline lib clf name X_train X_test y_train y_test = Inr (r, a)"
    unfolding no_exception_def by blast
  from pipelines_ok [OF p] obtain r1 a1 r2 a2 r3 a3 r4 a4
    where q: "KN_pipeline lib X_train X_test y_train y_test = Inr (r1, a1)"
      "LR_pipeline lib X_train X_test y_train y_test = Inr (r2, a2)"
      "SVM_pipeline lib X_train X_test y_train y_test = Inr (r3, a3)"
      "XGBoost_pipeline lib X_train X_test y_train y_test = Inr (r4, a4)"
    by blast
  let ?acc1 = "\<lparr>KNeighbors = KNeighbors acc @ [a1],
                  Logistic_Regression = Logistic_Regression acc @ [a2],
                  SVM = SVM acc @ [a3],
                  XGBoost = XGBoost acc @ [a4]\<rparr>"
  have step: "iterations lib X y (Suc k) acc g = iterations lib X y k ?acc1 g1"
    using sp q by simp
  from Suc.IH [of ?acc1 g1] show ?case
    unfolding step by auto
qed

lemma plot_performance_items:
  assumes "KNeighbors acc \<noteq> []" and "Logistic_Regression acc \<noteq> []"
    and "SVM acc \<noteq> []" and "XGBoost acc \<noteq> []"
  shows "\<exists>rows. plot_performance (items acc) (mean_accuracies acc) = Inr rows
    \<and> map fst rows = [''KNeighbors'', ''Logistic Regression'', ''SVM'', ''XGBoost'']"
  using assms by (simp add: items_def mean_accuracies_def Let_def)

lemma plot_performance_empty:
  assumes "KNeighbors acc = []"
  shows "plot_performance (items acc) means = Inl IndexError"
  using assms by (simp add: items_def)

lemma mean_accuracies_items:
  assumes "(model, trace) \<in> set (items acc)"
  shows "map_of (mean_accuracies acc) model = Some (np_mean trace)"
  using assms by (auto simp: items_def mean_accuracies_def)

lemma iterations_lengths:
  assumes "iterations lib X y k acc g = (Inr acc', g')"
  shows "length (KNeighbors acc') = length (KNeighbors acc) + k
    \<and> length (Logistic_Regression acc') = length (Logistic_Regression acc) + k
    \<and> length (SVM acc') = length (SVM acc) + k
    \<and> length (XGBoost acc') = length (XGBoost acc) + k"
  using assms
proof (induction k arbitrary: acc g)
  case 0
  then show ?case by simp
next
  case (Suc k)
  from Suc.prems obtain X_train X_test y_train y_test g1 r1 a1 r2 a2 r3 a3 r4 a4
    where "iterations lib X y k
             \<lparr>KNeighbors = KNeighbors acc @ [a1],
              Logistic_Regression = Logistic_Regression acc @ [a2],
              SVM = SVM acc @ [a3],
              XGBoost = XGBoost acc @ [a4]\<rparr> g1 = (Inr acc', g')"
    by (auto split: prod.splits sum.splits)
  from Suc.IH [OF this] show ?case
    by simp
qed

lemma plot_performance_items_iff:
  assumes "length (KNeighbors acc) = num" and "length (Logistic_Regression acc) = num"
    and "length (SVM acc) = num" and "length (XGBoost acc) = num"
  shows "(\<exists>rows. plot_performance (items acc) (mean_accuracies acc) = Inr rows) \<longleftrightarrow> 0 < num"
proof (cases "num = 0")
  case True
  with assms(1) have "KNeighbors acc = []"
    by simp
  from plot_performance_empty [OF this] True show ?thesis
    by simp
next
  case False
  with assms have "KNeighbors acc \<noteq> []" "Logistic_Regression acc \<noteq> []"
    "SVM acc \<noteq> []" "XGBoost acc \<noteq> []"
    by auto
  from plot_performance_items [OF this] False show ?thesis
    by auto
qed

text \<open>
  Claim C3. For every number of iterations and every input, whenever the loop of the
  iterative harness ends without an exception, it calls the reporter with the traces and
  the means, each of the four traces has exactly \<open>num\<close> entries, and the mean reported for
  a model is the sum of its trace divided by \<open>num\<close> (NaN for the empty trace, as
  \<open>np.mean\<close> gives). The loop ends without an exception when no iteration raises one.
\<close>
theorem evaluate_models_iteratively_traces:
  "(\<forall>acc g'.
      iterations lib X y num
        \<lparr>KNeighbors = [], Logistic_Regression = [], SVM = [], XGBoost = []\<rparr> g = (Inr acc, g')
      \<longrightarrow>
        evaluate_models_iteratively lib X y num g
          = (plot_performance (items acc) (mean_accuracies acc), g')
        \<and> map fst (items acc) = [''KNeighbors'', ''Logistic Regression'', ''SVM'', ''XGBoost'']
        \<and> (\<forall>(model, trace)\<in>set (items acc).
              length trace = num
              \<and> map_of (mean_accuracies acc) model
                  = Some (if num = 0 then None else Some (sum_list trace / of_nat num))))
   \<and> (no_exception lib X y \<longrightarrow>
        (\<exists>acc g'.
           iterations lib X y num
             \<lparr>KNeighbors = [], Logistic_Regression = [], SVM = [], XGBoost = []\<rparr> g
           = (Inr acc, g')))"
proof -
  let ?init = "\<lparr>KNeighbors = [], Logistic_Regression = [], SVM = [], XGBoost = []\<rparr>"
  have A: "evaluate_models_iteratively lib X y num g
          = (plot_performance (items acc) (mean_accuracies acc), g')
        \<and> map fst (items acc) = [''KNeighbors'', ''Logistic Regression'', ''SVM'', ''XGBoost'']
        \<and> (\<forall>(model, trace)\<in>set (items acc).
              length trace = num
              \<and> map_of (mean_accuracies acc) model
                  = Some (if num = 0 then None else Some (sum_list trace / of_nat num)))"
    if it: "iterations lib X y num ?init g = (Inr acc, g')" for acc g'
  proof -
    from iterations_lengths [OF it]
    have len: "length (KNeighbors acc) = num" "length (Logistic_Regression acc) = num"
      "length (SVM acc) = num" "length (XGBoost acc) = num"
      by auto
    have ev: "evaluate_models_iteratively lib X y num g
        = (plot_performance (items acc) (mean_accuracies acc), g')"
      using it by (simp add: evaluate_models_iteratively_def)
    have keys: "map fst (items acc) = [''KNeighbors'', ''Logistic Regression'', ''SVM'', ''XGBoost'']"
      by (simp add: items_def)
    have "length trace = num
        \<and> map_of (mean_accuracies acc) model
            = Some (if num = 0 then None else Some (sum_list trace / of_nat num))"
      if m: "(model, trace) \<in> set (items acc)" for model trace
    proof -
      from m len have l: "length trace = num"
        by (auto simp: items_def)
      then have "np_mean trace = (if num = 0 then None else Some (sum_list trace / of_nat num))"
        by (auto simp: np_mean_def)
      with mean_accuracies_items [OF m] l show ?thesis
        by simp
    qed
    then have "\<forall>(model, trace)\<in>set (items acc).
            length trace = num
            \<and> map_of (mean_accuracies acc) model
                = Some (if num = 0 then None else Some (sum_list trace / of_nat num))"
      by auto
    with ev keys show ?thesis
      by (intro conjI)
  qed
  have B: "\<exists>acc g'. iterations lib X y num ?init g = (Inr acc, g')"
    if "no_exception lib X y"
    using iterations_ok [OF that, of num ?init g] by blast
  from A B show ?thesis
    by (intro conjI allI impI) blast+
qed

text \<open>
  Claim C8. With zero iterations the traces are empty and the run ends with the IndexError
  of the range plot. For the traces of any run of the loop, the range plot returns its rows
  exactly when the number of iterations is at least one, and with at least one iteration
  and no exception in the iterations the whole run returns the four rows of the plot.
\<close>
theorem evaluate_models_iteratively_zero:
  "iterations lib X y 0 \<lparr>KNeighbors = [], Logistic_Regression = [], SVM = [], XGBoost = []\<rparr> g
     = (Inr \<lparr>KNeighbors = [], Logistic_Regression = [], SVM = [], XGBoost = []\<rparr>, g)
   \<and> evaluate_models_iteratively lib X y 0 g = (Inl IndexError, g)
   \<and> (\<forall>acc g'.
        iterations lib X y num
          \<lparr>KNeighbors = [], Logistic_Regression = [], SVM = [], XGBoost = []\<rparr> g = (Inr acc, g')
        \<longrightarrow>
          ((\<exists>rows. plot_performance (items acc) (mean_accuracies acc) = Inr rows)
             \<longleftrightarrow> 0 < num))
   \<and> (no_exception lib X y \<and> 0 < num \<longrightarrow>
        (\<exists>rows g'. evaluate_models_iteratively lib X y num g = (Inr rows, g')
           \<and> map fst rows = [''KNeighbors'', ''Logistic Regression'', ''SVM'', ''XGBoost'']))"
proof -
  let ?init = "\<lparr>KNeighbors = [], Logistic_Regression = [], SVM = [], XGBoost = []\<rparr>"
  have 1: "iterations lib X y 0 ?init g = (Inr ?init, g)"
    by simp
  have 2: "evaluate_models_iteratively lib X y 0 g = (Inl IndexError, g)"
    by (simp add: evaluate_models_iteratively_def plot_performance_empty)
  have 3: "(\<exists>rows. plot_performance (items acc) (mean_accuracies acc) = Inr rows) \<longleftrightarrow> 0 < num"
    if it: "iterations lib X y num ?init g = (Inr acc, g')" for acc g'
  proof -
    from iterations_lengths [OF it]
    have "length (KNeighbors acc) = num" "length (Logistic_Regression acc) = num"
      "length (SVM acc) = num" "length (XGBoost acc) = num"
      by auto
    then show ?thesis
      by (rule plot_performance_items_iff)
  qed
  have 4: "\<exists>rows g'. evaluate_models_iteratively lib X y num g = (Inr rows, g')
           \<and> map fst rows = [''KNeighbors'', ''Logistic Regression'', ''SVM'', ''XGBoost'']"
    if ok: "no_exception lib X y" and pos: "0 < num"
  proof -
    from iterations_ok [OF ok, of num ?init g]
    obtain acc g' where it: "iterations lib X y num ?init g = (Inr acc, g')"
      and len: "length (KNeighbors acc) = num" "length (Logistic_Regression acc) = num"
        "length (SVM acc) = num" "length (XGBoost acc) = num"
      by auto
    from len pos have "KNeighbors acc \<noteq> []" "Logistic_Regression acc \<noteq> []"
      "SVM acc \<noteq> []" "XGBoost acc \<noteq> []"
      by auto
    from plot_performance_items [OF this] it show ?thesis
      by (auto simp: evaluate_models_iteratively_def)
  qed
  from 1 2 3 4 show ?thesis
    by (intro conjI allI impI) blast+
qed

lemma test_size_bounds:
  assumes "2 \<le> n"
  shows "0 < nat \<lceil>(1 / 5 :: rat) * of_nat n\<rceil>" and "nat \<lceil>(1 / 5 :: rat) * of_nat n\<rceil> < n"
proof -
  have "(0 :: rat) < (1 / 5) * of_nat n"
    using assms by simp
  then have "0 < \<lceil>(1 / 5 :: rat) * of_nat n\<rceil>"
    by (simp only: zero_less_ceiling)
  then show "0 < nat \<lceil>(1 / 5 :: rat) * of_nat n\<rceil>"
    by simp
  have "(2 :: rat) \<le> of_nat n"
    using assms by (metis of_nat_le_iff of_nat_numeral)
  then have "(1 / 5 :: rat) * of_nat n \<le> of_int (int n - 1)"
    by simp
  then have "\<lceil>(1 / 5 :: rat) * of_nat n\<rceil> \<le> int n - 1"
    by (rule ceiling_le)
  then show "nat \<lceil>(1 / 5 :: rat) * of_nat n\<rceil> < n"
    using assms by linarith
qed

lemma train_test_split_ok:
  assumes "length y = length X" and "2 \<le> length X"
    and "length (fst (permutation lib g (length X))) = length X"
  shows "\<exists>X_train X_test y_train y_test.
    train_test_split lib X y (1 / 5) None g
      = (Inr (X_train, X_test, y_train, y_test), snd (permutation lib g (length X)))
    \<and> length X_test = nat \<lceil>(1 / 5 :: rat) * of_nat (length X)\<rceil>
    \<and> length y_test = length X_test
    \<and> y_test \<noteq> []
    \<and> set y_test \<subseteq> (\<lambda>i. y ! i) ` set (fst (permutation lib g (length X)))"
proof -
  let ?n = "length X"
  let ?t = "nat \<lceil>(1 / 5 :: rat) * of_nat ?n\<rceil>"
  let ?perm = "fst (permutation lib g ?n)"
  have t: "0 < ?t" "?t < ?n"
    using test_size_bounds [OF assms(2)] by auto
  have eq: "train_test_split lib X y (1 / 5) None g
      = (Inr (map (\<lambda>i. X ! i) (take (?n - ?t) (drop ?t ?perm)), map (\<lambda>i. X ! i) (take ?t ?perm),
              map (\<lambda>i. y ! i) (take (?n - ?t) (drop ?t ?perm)), map (\<lambda>i. y ! i) (take ?t ?perm)),
         snd (permutation lib g ?n))"
    using assms(1) t by (simp add: train_test_split_def Let_def split_def)
  have l: "length (take ?t ?perm) = ?t"
    using assms(3) t by simp
  then have ne: "map (\<lambda>i. y ! i) (take ?t ?perm) \<noteq> []"
    using t by (metis length_map less_numeral_extra(3) list.size(3))
  have "set (map (\<lambda>i. y ! i) (take ?t ?perm)) \<subseteq> (\<lambda>i. y ! i) ` set ?perm"
    using set_take_subset [of ?t ?perm] by auto
  with eq l ne show ?thesis
    by (intro exI conjI) (assumption | simp)+
qed

lemma run_pipeline_ok:
  assumes "cross_val_score lib clf X_train y_train = Inr scores"
    and "fit_predict lib clf X_train y_train X_test = Inr y_pred"
    and "valid_targets y_test y_pred"
  shows "\<exists>r. run_pipeline lib clf name X_train X_test y_train y_test
    = Inr (r, accuracy_score y_test y_pred)"
  using assms by (simp add: run_pipeline_def evaluate_model_def results_def)

lemma no_exception_intro:
  assumes perm: "\<forall>g. length (fst (permutation lib g (length X))) = length X
               \<and> set (fst (permutation lib g (length X))) \<subseteq> {..<length X}"
    and cv: "\<forall>clf X_train y_train. \<exists>scores. cross_val_score lib clf X_train y_train = Inr scores"
    and fp: "\<forall>clf X_train y_train X_test. \<exists>y_pred.
               fit_predict lib clf X_train y_train X_test = Inr y_pred
               \<and> length y_pred = length X_test \<and> list_all (\<lambda>v. v = 0 \<or> v = 1) y_pred"
    and len: "length y = length X" "2 \<le> length X"
    and bin: "list_all (\<lambda>v. v = 0 \<or> v = 1) y"
  shows "no_exception lib X y"
  unfolding no_exception_def
proof
  fix g
  from perm have pl: "length (fst (permutation lib g (length X))) = length X"
    and ps: "set (fst (permutation lib g (length X))) \<subseteq> {..<length X}"
    by auto
  from train_test_split_ok [OF len pl]
  obtain X_train X_test y_train y_test
    where sp: "train_test_split lib X y (1 / 5) None g
        = (Inr (X_train, X_test, y_train, y_test), snd (permutation lib g (length X)))"
      and l: "length y_test = length X_test" and ne: "y_test \<noteq> []"
      and sub: "set y_test \<subseteq> (\<lambda>i. y ! i) ` set (fst (permutation lib g (length X)))"
    by blast
  have "v = 0 \<or> v = 1" if "v \<in> set y_test" for v
  proof -
    from that sub ps obtain i where "i < length X" and "v = y ! i"
      by auto
    with len(1) have "v \<in> set y"
      by simp
    with bin show ?thesis
      by (simp add: list_all_iff)
  qed
  then have yb: "list_all (\<lambda>v. v = 0 \<or> v = 1) y_test"
    by (simp add: list_all_iff)
  have "\<exists>r a. run_pipeline lib clf name X_train X_test y_train y_test = Inr (r, a)" for clf name
  proof -
    from cv obtain scores where c: "cross_val_score lib clf X_train y_train = Inr scores"
      by blast
    from fp obtain y_pred where f: "fit_predict lib clf X_train y_train X_test = Inr y_pred"
      and "length y_pred = length X_test" and "list_all (\<lambda>v. v = 0 \<or> v = 1) y_pred"
      by blast
    with l ne yb have "valid_targets y_test y_pred"
      by (simp add: valid_targets_def)
    from run_pipeline_ok [OF c f this] show ?thesis
      by blast
  qed
  with sp show "\<exists>X_train X_test y_train y_test g'.
        train_test_split lib X y (1 / 5) None g = (Inr (X_train, X_test, y_train, y_test), g')
        \<and> (\<forall>clf name. \<exists>r a.
              run_pipeline lib clf name X_train X_test y_train y_test = Inr (r, a))"
    by blast
qed

lemma example_no_exception:
  "no_exception example_lib example_X example_y"
proof (rule no_exception_intro)
  show "\<forall>g. length (fst (permutation example_lib g (length example_X))) = length example_X
      \<and> set (fst (permutation example_lib g (length example_X))) \<subseteq> {..<length example_X}"
    by (auto simp: example_lib_def)
  show "\<forall>clf X_train y_train. \<exists>scores. cross_val_score example_lib clf X_train y_train = Inr scores"
    by (simp add: example_lib_def)
  show "\<forall>clf X_train y_train X_test. \<exists>y_pred.
      fit_predict example_lib clf X_train y_train X_test = Inr y_pred
      \<and> length y_pred = length X_test \<and> list_all (\<lambda>v. v = 0 \<or> v = 1) y_pred"
    by (auto simp: example_lib_def list_all_iff split: classifier.splits list.splits)
  show "length example_y = length example_X"
    by (simp add: example_X_def example_y_def)
  show "2 \<le> length example_X"
    by (simp add: example_X_def)
  show "list_all (\<lambda>v. v = 0 \<or> v = 1) example_y"
    by (simp add: example_y_def)
qed

lemma example_iterations:
  "iterations example_lib example_X example_y 3
     \<lparr>KNeighbors = [], Logistic_Regression = [], SVM = [], XGBoost = []\<rparr> 0
   = (Inr \<lparr>KNeighbors = [1, 0, 0], Logistic_Regression = [1, 1, 1],
           SVM = [0, 1, 1], XGBoost = [0, 1, 1]\<rparr>, 3)"
  by code_simp

theorem evaluate_models_iteratively_traces_witness:
  "no_exception example_lib example_X example_y
   \<and> (\<exists>acc g'. iterations example_lib example_X example_y 3
         \<lparr>KNeighbors = [], Logistic_Regression = [], SVM = [], XGBoost = []\<rparr> 0 = (Inr acc, g')
        \<and> SVM acc = [0, 1, 1]
        \<and> length (SVM acc) = 3
        \<and> map_of (mean_accuracies acc) ''SVM'' = Some (Some (2 / 3)))"
proof -
  let ?init = "\<lparr>KNeighbors = [], Logistic_Regression = [], SVM = [], XGBoost = []\<rparr>"
  note traces = evaluate_models_iteratively_traces [of example_lib example_X example_y 3 0]
  from traces example_no_exception
  obtain acc g' where it: "iterations example_lib example_X example_y 3 ?init 0 = (Inr acc, g')"
    by blast
  with traces have tr: "\<forall>(model, trace)\<in>set (items acc).
          length trace = 3
          \<and> map_of (mean_accuracies acc) model
              = Some (if (3 :: nat) = 0 then None else Some (sum_list trace / of_nat 3))"
    by blast
  from it have s: "SVM acc = [0, 1, 1]"
    unfolding example_iterations by auto
  have "(''SVM'', SVM acc) \<in> set (items acc)"
    by (simp add: items_def)
  with tr have "length (SVM acc) = 3"
    and "map_of (mean_accuracies acc) ''SVM'' = Some (Some (sum_list (SVM acc) / of_nat 3))"
    by auto
  with s it example_no_exception show ?thesis
    by auto
qed

theorem evaluate_models_iteratively_zero_witness:
  "no_exception example_lib example_X example_y
   \<and> evaluate_models_iteratively example_lib example_X example_y 0 0 = (Inl IndexError, 0)
   \<and> (\<exists>rows g'. evaluate_models_iteratively example_lib example_X example_y 3 0 = (Inr rows, g')
          \<and> map fst rows = [''KNeighbors'', ''Logistic Regression'', ''SVM'', ''XGBoost''])"
  using evaluate_models_iteratively_zero [of example_lib example_X example_y 0 3]
    example_no_exception
  by simp

subsection \<open>The single run\<close>

lemma train_test_split_seeded:
  "train_test_split lib X y q (Some seed) g
     = (fst (train_test_split lib X y q (Some seed) g0), g)"
  by (simp add: train_test_split_def Let_def split_def)

lemma evaluate_models_once_seeded:
  "evaluate_models_once lib X y g = (fst (evaluate_models_once lib X y g0), g)"
proof -
  obtain res where r: "fst (train_test_split lib X y (1 / 5) (Some 42) g0) = res"
    by simp
  have 1: "train_test_split lib X y (1 / 5) (Some 42) g = (res, g)"
    using train_test_split_seeded [of lib X y "1 / 5" 42 g g0] r by simp
  have 2: "train_test_split lib X y (1 / 5) (Some 42) g0 = (res, g0)"
    using train_test_split_seeded [of lib X y "1 / 5" 42 g0 g0] r by simp
  show ?thesis
    unfolding evaluate_models_once_def 1 2
    by (simp split: sum.splits prod.splits)
qed

lemma train_test_split_sizes:
  assumes "length y = length X" and "2 \<le> length X"
    and "length (fst (permutation lib (RandomState lib seed) (length X))) = length X"
  shows "\<exists>X_train X_test y_train y_test.
    fst (train_test_split lib X y (1 / 5) (Some seed) g) = Inr (X_train, X_test, y_train, y_test)
    \<and> length X_test = nat \<lceil>(1 / 5 :: rat) * of_nat (length X)\<rceil>
    \<and> length X_train = length X - length X_test
    \<and> length y_train = length X_train
    \<and> length y_test = length X_test"
proof -
  let ?n = "length X"
  let ?t = "nat \<lceil>(1 / 5 :: rat) * of_nat ?n\<rceil>"
  have t: "0 < ?t" "?t < ?n"
    using test_size_bounds [OF assms(2)] by auto
  show ?thesis
    using assms(1,3) t by (simp add: train_test_split_def Let_def split_def)
qed

text \<open>
  Claim C6. The split of the single run is seeded with 42: whatever the states \<open>g\<close> and
  \<open>g'\<close> of the global generator in two executions on the same \<open>X\<close> and \<open>y\<close>, the two
  partitions are the same, and so is everything the run reports; the run leaves the global
  generator as it was. On at least two rows the split returns, with the test set
  \<open>ceil(n / 5)\<close> rows and the training set the other rows.
\<close>
theorem evaluate_models_once_partition:
  "fst (train_test_split lib X y (1 / 5) (Some 42) g)
     = fst (train_test_split lib X y (1 / 5) (Some 42) g')
   \<and> fst (evaluate_models_once lib X y g) = fst (evaluate_models_once lib X y g')
   \<and> snd (evaluate_models_once lib X y g) = g
   \<and> (length y = length X \<and> 2 \<le> length X
      \<and> length (fst (permutation lib (RandomState lib 42) (length X))) = length X \<longrightarrow>
      (\<exists>X_train X_test y_train y_test.
         fst (train_test_split lib X y (1 / 5) (Some 42) g) = Inr (X_train, X_test, y_train, y_test)
         \<and> length X_test = nat \<lceil>(1 / 5 :: rat) * of_nat (length X)\<rceil>
         \<and> length X_train = length X - length X_test
         \<and> length y_train = length X_train
         \<and> length y_test = length X_test))"
proof -
  have 1: "fst (train_test_split lib X y (1 / 5) (Some 42) g)
     = fst (train_test_split lib X y (1 / 5) (Some 42) g')"
    using train_test_split_seeded [of lib X y "1 / 5" 42 g g'] by simp
  have 2: "fst (evaluate_models_once lib X y g) = fst (evaluate_models_once lib X y g')"
    using evaluate_models_once_seeded [of lib X y g g'] by simp
  have 3: "snd (evaluate_models_once lib X y g) = g"
    using evaluate_models_once_seeded [of lib X y g g] by (metis snd_conv)
  from 1 2 3 train_test_split_sizes [of y X lib 42 g] show ?thesis
    by blast
qed

theorem evaluate_models_once_partition_witness:
  "length example_y = length example_X \<and> 2 \<le> length example_X
   \<and> length (fst (permutation example_lib (RandomState example_lib 42) (length example_X)))
       = length example_X
   \<and> fst (train_test_split example_lib example_X example_y (1 / 5) (Some 42) 0)
       = Inr ([[100, 1], [75 / 2, 1], [100, 0]], [[100, 1]], [0, 0, 1], [1])
   \<and> fst (train_test_split example_lib example_X example_y (1 / 5) (Some 42) 7)
       = Inr ([[100, 1], [75 / 2, 1], [100, 0]], [[100, 1]], [0, 0, 1], [1])
   \<and> snd (evaluate_models_once example_lib example_X example_y 7) = 7"
proof -
  have a: "length example_y = length example_X" "2 \<le> length example_X"
    by (simp_all add: example_X_def example_y_def)
  have b: "length (fst (permutation example_lib (RandomState example_lib 42) (length example_X)))
       = length example_X"
    by (simp add: example_lib_def)
  have c: "fst (train_test_split example_lib example_X example_y (1 / 5) (Some 42) 0)
       = Inr ([[100, 1], [75 / 2, 1], [100, 0]], [[100, 1]], [0, 0, 1], [1])"
    by code_simp
  from evaluate_models_once_partition [of example_lib example_X example_y 7 0] c
  have "fst (train_test_split example_lib example_X example_y (1 / 5) (Some 42) 7)
       = Inr ([[100, 1], [75 / 2, 1], [100, 0]], [[100, 1]], [0, 0, 1], [1])"
    and "snd (evaluate_models_once example_lib example_X example_y 7) = 7"
    by simp_all
  with a b c show ?thesis
    by simp
qed

subsection \<open>Main\<close>

text \<open>
  Claim C5. When the file is there, it is read once. When it is missing, the acquisition
  function is called once and the file is read again; if it is there now, the run goes on
  with it. If it is still missing, the error message is printed and the run ends with
  SystemExit 1. The acquisition function is never called more than once.
\<close>
theorem load_data_recovery:
  "(fs ''heart_disease.csv'' = Some raw \<longrightarrow>
      load_data fetch_data fs = ([Read_csv ''heart_disease.csv''], Inr raw, fs))
   \<and> (fs ''heart_disease.csv'' = None \<and> fetch_data fs ''heart_disease.csv'' = Some raw \<longrightarrow>
      load_data fetch_data fs
        = ([Read_csv ''heart_disease.csv'', Fetch_data, Read_csv ''heart_disease.csv''],
           Inr raw, fetch_data fs))
   \<and> (fs ''heart_disease.csv'' = None \<and> fetch_data fs ''heart_disease.csv'' = None \<longrightarrow>
      load_data fetch_data fs
        = ([Read_csv ''heart_disease.csv'', Fetch_data, Read_csv ''heart_disease.csv'',
            Print ''Error fetching data. Please try again.''],
           Inl (SystemExit 1), fetch_data fs)
      \<and> main lib fetch_data fs g
        = ([Read_csv ''heart_disease.csv'', Fetch_data, Read_csv ''heart_disease.csv'',
            Print ''Error fetching data. Please try again.''],
           Inl (SystemExit 1)))
   \<and> length (filter (\<lambda>e. e = Fetch_data) (fst (load_data fetch_data fs))) \<le> 1"
proof -
  have 1: "load_data fetch_data fs = ([Read_csv ''heart_disease.csv''], Inr raw, fs)"
    if "fs ''heart_disease.csv'' = Some raw"
    using that by (simp add: load_data_def read_csv_def)
  have 2: "load_data fetch_data fs
        = ([Read_csv ''heart_disease.csv'', Fetch_data, Read_csv ''heart_disease.csv''],
           Inr raw, fetch_data fs)"
    if "fs ''heart_disease.csv'' = None" and "fetch_data fs ''heart_disease.csv'' = Some raw"
    using that by (simp add: load_data_def read_csv_def)
  have 3: "load_data fetch_data fs
        = ([Read_csv ''heart_disease.csv'', Fetch_data, Read_csv ''heart_disease.csv'',
            Print ''Error fetching data. Please try again.''],
           Inl (SystemExit 1), fetch_data fs)"
    if "fs ''heart_disease.csv'' = None" and "fetch_data fs ''heart_disease.csv'' = None"
    using that by (simp add: load_data_def read_csv_def)
  have 4: "main lib fetch_data fs g
        = ([Read_csv ''heart_disease.csv'', Fetch_data, Read_csv ''heart_disease.csv'',
            Print ''Error fetching data. Please try again.''],
           Inl (SystemExit 1))"
    if "fs ''heart_disease.csv'' = None" and "fetch_data fs ''heart_disease.csv'' = None"
    using 3 [OF that] by (simp add: main_def)
  have 5: "length (filter (\<lambda>e. e = Fetch_data) (fst (load_data fetch_data fs))) \<le> 1"
    by (cases "fs ''heart_disease.csv''"; cases "fetch_data fs ''heart_disease.csv''")
      (simp_all add: load_data_def read_csv_def Let_def)
  from 1 2 3 4 5 show ?thesis
    by blast
qed

theorem load_data_recovery_witness:
  "no_files ''heart_disease.csv'' = None
   \<and> download no_files ''heart_disease.csv'' = Some example_raw
   \<and> load_data download no_files
       = ([Read_csv ''heart_disease.csv'', Fetch_data, Read_csv ''heart_disease.csv''],
          Inr example_raw, download no_files)
   \<and> id no_files ''heart_disease.csv'' = None
   \<and> main example_lib id no_files 0
       = ([Read_csv ''heart_disease.csv'', Fetch_data, Read_csv ''heart_disease.csv'',
           Print ''Error fetching data. Please try again.''],
          Inl (SystemExit 1))
   \<and> download no_files ''heart_disease.csv'' = Some example_raw
   \<and> load_data id (download no_files)
       = ([Read_csv ''heart_disease.csv''], Inr example_raw, download no_files)"
proof -
  have a: "no_files ''heart_disease.csv'' = None"
    by (simp add: no_files_def)
  have b: "download no_files ''heart_disease.csv'' = Some example_raw"
    by (simp add: download_def)
  have c: "id no_files ''heart_disease.csv'' = None"
    by (simp add: no_files_def)
  from load_data_recovery [of no_files example_raw download example_lib 0] a b
  have 1: "load_data download no_files
       = ([Read_csv ''heart_disease.csv'', Fetch_data, Read_csv ''heart_disease.csv''],
          Inr example_raw, download no_files)"
    by simp
  from load_data_recovery [of no_files example_raw id example_lib 0] a c
  have 2: "main example_lib id no_files 0
       = ([Read_csv ''heart_disease.csv'', Fetch_data, Read_csv ''heart_disease.csv'',
           Print ''Error fetching data. Please try again.''],
          Inl (SystemExit 1))"
    by simp
  from load_data_recovery [of "download no_files" example_raw id example_lib 0] b
  have 3: "load_data id (download no_files)
       = ([Read_csv ''heart_disease.csv''], Inr example_raw, download no_files)"
    by simp
  from a b c 1 2 3 show ?thesis
    by simp
qed

end
